theory Spec2Isabelle
  imports Complex_Main
begin

section \<open>Numbers and the functions of Go's math package\<close>

text \<open>
  The package computes on \<^verbatim>\<open>float64\<close>.  The embedding reads every \<^verbatim>\<open>float64\<close> as a real
  number: the arithmetic is the exact arithmetic the source text denotes, rounding is not
  part of the model, and there are no infinities and no NaN.  Decimal literals of the
  source are the rationals they spell.  All statements below are statements about this
  exact reading of the code.

  The functions of package \<^verbatim>\<open>math\<close> are read as follows:
  \<^verbatim>\<open>math.Abs\<close>, \<^verbatim>\<open>math.Min\<close>, \<^verbatim>\<open>math.Max\<close> as \<open>abs\<close>, \<open>min\<close>, \<open>max\<close>;
  \<^verbatim>\<open>math.Sqrt\<close> as \<open>sqrt\<close> (Go yields NaN below zero, where \<open>sqrt\<close> is negative, so
  \<open>0 \<le> sqrt x\<close> holds exactly when Go returns a number);
  \<^verbatim>\<open>math.Cbrt\<close> as \<open>root 3\<close>; \<^verbatim>\<open>math.Pow\<close> as \<open>powr\<close> (the code only raises
  non-negative bases); \<^verbatim>\<open>math.Sin\<close>, \<^verbatim>\<open>math.Cos\<close>, \<^verbatim>\<open>math.Exp\<close> as \<open>sin\<close>, \<open>cos\<close>,
  \<open>exp\<close>; \<^verbatim>\<open>math.Pi\<close> as \<open>pi\<close>.  The literals \<^verbatim>\<open>1e-14\<close> and \<^verbatim>\<open>1e-4\<close> are written
  out as decimal fractions.
\<close>

definition trunc :: "real \<Rightarrow> int" where
  \<comment> \<open>rounding towards zero\<close>
  "trunc x = (if 0 \<le> x then \<lfloor>x\<rfloor> else \<lceil>x\<rceil>)"

definition math_Mod :: "real \<Rightarrow> real \<Rightarrow> real" where
  \<comment> \<open>\<^verbatim>\<open>math.Mod(x, y)\<close>: the remainder of the truncated division, with the sign of \<open>x\<close>\<close>
  "math_Mod x y = x - y * of_int (trunc (x / y))"

definition math_Atan2 :: "real \<Rightarrow> real \<Rightarrow> real" where
  \<comment> \<open>\<^verbatim>\<open>math.Atan2(y, x)\<close>: the angle of the point \<open>(x, y)\<close>, in \<open>(-pi, pi]\<close>\<close>
  "math_Atan2 y x =
     (if 0 < x then arctan (y / x)
      else if x < 0 then (if 0 \<le> y then arctan (y / x) + pi else arctan (y / x) - pi)
      else if 0 < y then pi / 2
      else if y < 0 then - (pi / 2)
      else 0)"

definition math_Pow :: "real \<Rightarrow> real \<Rightarrow> real" where
  "math_Pow x y = x powr y"

section \<open>Colors in RGB\<close>

record Color =
  R :: real
  G :: real
  B :: real

type_synonym triple = "real \<times> real \<times> real"

definition Delta :: real where
  "Delta = 1 / 255"

definition D65 :: triple where
  "D65 = (0.95047, 1.00000, 1.08883)"

definition D50 :: triple where
  "D50 = (0.96422, 1.00000, 0.82521)"

definition IsValid :: "Color \<Rightarrow> bool" where
  "IsValid c \<longleftrightarrow> 0 \<le> R c \<and> R c \<le> 1 \<and> 0 \<le> G c \<and> G c \<le> 1 \<and> 0 \<le> B c \<and> B c \<le> 1"

definition clamp01 :: "real \<Rightarrow> real" where
  "clamp01 v = max 0 (min v 1)"

definition Clamped :: "Color \<Rightarrow> Color" where
  "Clamped c = \<lparr>R = clamp01 (R c), G = clamp01 (G c), B = clamp01 (B c)\<rparr>"

definition sq :: "real \<Rightarrow> real" where
  "sq v = v * v"

definition cub :: "real \<Rightarrow> real" where
  "cub v = v * v * v"



definition AlmostEqualRgb :: "Color \<Rightarrow> Color \<Rightarrow> bool" where
  "AlmostEqualRgb c1 c2 \<longleftrightarrow>
     \<bar>R c1 - R c2\<bar> + \<bar>G c1 - G c2\<bar> + \<bar>B c1 - B c2\<bar> < 3 * Delta"

definition BlendRgb :: "Color \<Rightarrow> Color \<Rightarrow> real \<Rightarrow> Color" where
  "BlendRgb c1 c2 t =
     \<lparr>R = R c1 + t * (R c2 - R c1),
      G = G c1 + t * (G c2 - G c1),
      B = B c1 + t * (B c2 - B c1)\<rparr>"

definition interp_angle :: "real \<Rightarrow> real \<Rightarrow> real \<Rightarrow> real" where
  "interp_angle a0 a1 t =
     (let delta = math_Mod (math_Mod (a1 - a0) 360 + 540) 360 - 180
      in math_Mod (a0 + t * delta + 360) 360)"

section \<open>HSV\<close>

text \<open>
  Go lets a method and a function share a name.  The method \<^verbatim>\<open>func (col Color) Hsv()\<close>
  is \<open>Color_Hsv\<close> here and the function \<^verbatim>\<open>func Hsv(H, S, V)\<close> is \<open>Hsv\<close>; the other
  spaces follow the same convention.
\<close>

definition Color_Hsv :: "Color \<Rightarrow> triple" where
  "Color_Hsv col =
     (let mn = min (min (R col) (G col)) (B col);
          v = max (max (R col) (G col)) (B col);
          C = v - mn;
          s = (if v \<noteq> 0 then C / v else 0);
          h = (if mn \<noteq> v then
                 (let h1 = (if v = R col then math_Mod ((G col - B col) / C) 6 else 0);
                      h2 = (if v = G col then (B col - R col) / C + 2 else h1);
                      h3 = (if v = B col then (R col - G col) / C + 4 else h2);
                      h4 = h3 * 60
                  in if h4 < 0 then h4 + 360 else h4)
               else 0)
      in (h, s, v))"

definition Hsv :: "real \<Rightarrow> real \<Rightarrow> real \<Rightarrow> Color" where
  "Hsv H S V =
     (let Hp = H / 60;
          C = V * S;
          X = C * (1 - \<bar>math_Mod Hp 2 - 1\<bar>);
          m = V - C;
          (r, g, b) =
            (if 0 \<le> Hp \<and> Hp < 1 then (C, X, 0)
             else if 1 \<le> Hp \<and> Hp < 2 then (X, C, 0)
             else if 2 \<le> Hp \<and> Hp < 3 then (0, C, X)
             else if 3 \<le> Hp \<and> Hp < 4 then (0, X, C)
             else if 4 \<le> Hp \<and> Hp < 5 then (X, 0, C)
             else if 5 \<le> Hp \<and> Hp < 6 then (C, 0, X)
             else (0, 0, 0))
      in \<lparr>R = m + r, G = m + g, B = m + b\<rparr>)"

definition BlendHsv_coords :: "Color \<Rightarrow> Color \<Rightarrow> real \<Rightarrow> triple" where
  \<comment> \<open>the body of \<^verbatim>\<open>BlendHsv\<close> up to the three arguments of its final call of \<^verbatim>\<open>Hsv\<close>\<close>
  "BlendHsv_coords c1 c2 t =
     (case (Color_Hsv c1, Color_Hsv c2) of ((h1, s1, v1), (h2, s2, v2)) \<Rightarrow>
        (let (h1', h2') =
               (if s1 = 0 \<and> s2 \<noteq> 0 then (h2, h2)
                else if s2 = 0 \<and> s1 \<noteq> 0 then (h1, h1)
                else (h1, h2))
         in (interp_angle h1' h2' t, s1 + t * (s2 - s1), v1 + t * (v2 - v1))))"

definition BlendHsv :: "Color \<Rightarrow> Color \<Rightarrow> real \<Rightarrow> Color" where
  "BlendHsv c1 c2 t = (case BlendHsv_coords c1 c2 t of (h, s, v) \<Rightarrow> Hsv h s v)"

section \<open>HSL\<close>

definition Color_Hsl :: "Color \<Rightarrow> triple" where
  "Color_Hsl col =
     (let mn = min (min (R col) (G col)) (B col);
          mx = max (max (R col) (G col)) (B col);
          l = (mx + mn) / 2
      in if mn = mx then (0, 0, l)
         else
           (let s = (if l < 0.5 then (mx - mn) / (mx + mn) else (mx - mn) / (2 - mx - mn));
                h0 = (if mx = R col then (G col - B col) / (mx - mn)
                      else if mx = G col then 2 + (B col - R col) / (mx - mn)
                      else 4 + (R col - G col) / (mx - mn));
                h1 = h0 * 60
            in (if h1 < 0 then h1 + 360 else h1, s, l)))"

definition Hsl_wrap :: "real \<Rightarrow> real" where
  \<comment> \<open>the two tests applied in turn to each of \<^verbatim>\<open>tr\<close>, \<^verbatim>\<open>tg\<close>, \<^verbatim>\<open>tb\<close>:
      \<^verbatim>\<open>if t < 0 { t++ }; if t > 1 { t-- }\<close>\<close>
  "Hsl_wrap t = (let t' = (if t < 0 then t + 1 else t) in if t' > 1 then t' - 1 else t')"

definition Hsl_channel :: "real \<Rightarrow> real \<Rightarrow> real \<Rightarrow> real" where
  \<comment> \<open>the four-way test that \<^verbatim>\<open>Hsl\<close> writes out once per channel\<close>
  "Hsl_channel t1 t2 tc =
     (if 6 * tc < 1 then t2 + (t1 - t2) * 6 * tc
      else if 2 * tc < 1 then t1
      else if 3 * tc < 2 then t2 + (t1 - t2) * (2 / 3 - tc) * 6
      else t2)"

definition Hsl :: "real \<Rightarrow> real \<Rightarrow> real \<Rightarrow> Color" where
  "Hsl h s l =
     (if s = 0 then \<lparr>R = l, G = l, B = l\<rparr>
      else
        (let t1 = (if l < 0.5 then l * (1 + s) else l + s - l * s);
             t2 = 2 * l - t1;
             h' = h / 360;
             tr = Hsl_wrap (h' + 1 / 3);
             tg = Hsl_wrap h';
             tb = Hsl_wrap (h' - 1 / 3)
         in \<lparr>R = Hsl_channel t1 t2 tr, G = Hsl_channel t1 t2 tg, B = Hsl_channel t1 t2 tb\<rparr>))"

section \<open>Linear RGB\<close>

definition linearize :: "real \<Rightarrow> real" where
  "linearize v = (if v \<le> 0.04045 then v / 12.92 else math_Pow ((v + 0.055) / 1.055) 2.4)"

definition Color_LinearRgb :: "Color \<Rightarrow> triple" where
  "Color_LinearRgb col = (linearize (R col), linearize (G col), linearize (B col))"

definition delinearize :: "real \<Rightarrow> real" where
  "delinearize v =
     (if v \<le> 0.0031308 then 12.92 * v else 1.055 * math_Pow v (1.0 / 2.4) - 0.055)"

definition LinearRgb :: "real \<Rightarrow> real \<Rightarrow> real \<Rightarrow> Color" where
  "LinearRgb r g b = \<lparr>R = delinearize r, G = delinearize g, B = delinearize b\<rparr>"

definition XyzToLinearRgb :: "real \<Rightarrow> real \<Rightarrow> real \<Rightarrow> triple" where
  "XyzToLinearRgb x y z =
     (3.2409699419045214 * x - 1.5373831775700935 * y - 0.49861076029300328 * z,
      - 0.96924363628087983 * x + 1.8759675015077207 * y + 0.041555057407175613 * z,
      0.055630079696993609 * x - 0.20397695888897657 * y + 1.0569715142428786 * z)"

definition LinearRgbToXyz :: "real \<Rightarrow> real \<Rightarrow> real \<Rightarrow> triple" where
  "LinearRgbToXyz r g b =
     (0.41239079926595948 * r + 0.35758433938387796 * g + 0.18048078840183429 * b,
      0.21263900587151036 * r + 0.71516867876775593 * g + 0.072192315360733715 * b,
      0.019330818715591851 * r + 0.11919477979462599 * g + 0.95053215224966058 * b)"


definition BlendLinearRgb :: "Color \<Rightarrow> Color \<Rightarrow> real \<Rightarrow> Color" where
  "BlendLinearRgb c1 c2 t =
     (case (Color_LinearRgb c1, Color_LinearRgb c2) of ((r1, g1, b1), (r2, g2, b2)) \<Rightarrow>
        LinearRgb (r1 + t * (r2 - r1)) (g1 + t * (g2 - g1)) (b1 + t * (b2 - b1)))"

section \<open>XYZ and xyY\<close>

definition Color_Xyz :: "Color \<Rightarrow> triple" where
  "Color_Xyz col = (case Color_LinearRgb col of (r, g, b) \<Rightarrow> LinearRgbToXyz r g b)"

definition Xyz :: "real \<Rightarrow> real \<Rightarrow> real \<Rightarrow> Color" where
  "Xyz x y z = (case XyzToLinearRgb x y z of (r, g, b) \<Rightarrow> LinearRgb r g b)"

definition XyzToXyyWhiteRef :: "real \<Rightarrow> real \<Rightarrow> real \<Rightarrow> triple \<Rightarrow> triple" where
  "XyzToXyyWhiteRef X Y Z wref =
     (case wref of (w0, w1, w2) \<Rightarrow>
        (let N = X + Y + Z
         in if \<bar>N\<bar> < 0.00000000000001 then (w0 / (w0 + w1 + w2), w1 / (w0 + w1 + w2), Y)
            else (X / N, Y / N, Y)))"

definition XyzToXyy :: "real \<Rightarrow> real \<Rightarrow> real \<Rightarrow> triple" where
  "XyzToXyy X Y Z = XyzToXyyWhiteRef X Y Z D65"

definition XyyToXyz :: "real \<Rightarrow> real \<Rightarrow> real \<Rightarrow> triple" where
  "XyyToXyz x y Y =
     (if - 0.00000000000001 < y \<and> y < 0.00000000000001 then (0, Y, 0)
      else (Y / y * x, Y, Y / y * (1 - x - y)))"

definition Color_Xyy :: "Color \<Rightarrow> triple" where
  "Color_Xyy col = (case Color_Xyz col of (X, Y, Z) \<Rightarrow> XyzToXyy X Y Z)"

definition Color_XyyWhiteRef :: "Color \<Rightarrow> triple \<Rightarrow> triple" where
  "Color_XyyWhiteRef col wref = (case Color_Xyz col of (X, Y2, Z) \<Rightarrow> XyzToXyyWhiteRef X Y2 Z wref)"

definition Xyy :: "real \<Rightarrow> real \<Rightarrow> real \<Rightarrow> Color" where
  "Xyy x y Y = (case XyyToXyz x y Y of (X, Y', Z) \<Rightarrow> Xyz X Y' Z)"

section \<open>L*a*b*\<close>

definition lab_f :: "real \<Rightarrow> real" where
  "lab_f t =
     (if t > 6 / 29 * 6 / 29 * 6 / 29 then root 3 t
      else t / 3 * 29 / 6 * 29 / 6 + 4 / 29)"

definition XyzToLabWhiteRef :: "real \<Rightarrow> real \<Rightarrow> real \<Rightarrow> triple \<Rightarrow> triple" where
  "XyzToLabWhiteRef x y z wref =
     (case wref of (w0, w1, w2) \<Rightarrow>
        (let fy = lab_f (y / w1)
         in (1.16 * fy - 0.16, 5 * (lab_f (x / w0) - fy), 2 * (fy - lab_f (z / w2)))))"

definition XyzToLab :: "real \<Rightarrow> real \<Rightarrow> real \<Rightarrow> triple" where
  "XyzToLab x y z = XyzToLabWhiteRef x y z D65"

definition lab_finv :: "real \<Rightarrow> real" where
  "lab_finv t =
     (if t > 6 / 29 then t * t * t
      else 3 * 6 / 29 * 6 / 29 * (t - 4 / 29))"

definition LabToXyzWhiteRef :: "real \<Rightarrow> real \<Rightarrow> real \<Rightarrow> triple \<Rightarrow> triple" where
  "LabToXyzWhiteRef l a b wref =
     (case wref of (w0, w1, w2) \<Rightarrow>
        (let l2 = (l + 0.16) / 1.16
         in (w0 * lab_finv (l2 + a / 5), w1 * lab_finv l2, w2 * lab_finv (l2 - b / 2))))"

definition LabToXyz :: "real \<Rightarrow> real \<Rightarrow> real \<Rightarrow> triple" where
  "LabToXyz l a b = LabToXyzWhiteRef l a b D65"

definition Color_Lab :: "Color \<Rightarrow> triple" where
  "Color_Lab col = (case Color_Xyz col of (x, y, z) \<Rightarrow> XyzToLab x y z)"

definition Color_LabWhiteRef :: "Color \<Rightarrow> triple \<Rightarrow> triple" where
  "Color_LabWhiteRef col wref = (case Color_Xyz col of (x, y, z) \<Rightarrow> XyzToLabWhiteRef x y z wref)"

definition Lab :: "real \<Rightarrow> real \<Rightarrow> real \<Rightarrow> Color" where
  "Lab l a b = (case LabToXyz l a b of (x, y, z) \<Rightarrow> Xyz x y z)"

definition LabWhiteRef :: "real \<Rightarrow> real \<Rightarrow> real \<Rightarrow> triple \<Rightarrow> Color" where
  "LabWhiteRef l a b wref = (case LabToXyzWhiteRef l a b wref of (x, y, z) \<Rightarrow> Xyz x y z)"







definition BlendLab :: "Color \<Rightarrow> Color \<Rightarrow> real \<Rightarrow> Color" where
  "BlendLab c1 c2 t =
     (case (Color_Lab c1, Color_Lab c2) of ((l1, a1, b1), (l2, a2, b2)) \<Rightarrow>
        Lab (l1 + t * (l2 - l1)) (a1 + t * (a2 - a1)) (b1 + t * (b2 - b1)))"

section \<open>L*u*v*\<close>

definition xyz_to_uv :: "real \<Rightarrow> real \<Rightarrow> real \<Rightarrow> real \<times> real" where
  "xyz_to_uv x y z =
     (let denom = x + 15 * y + 3 * z
      in if denom = 0 then (0, 0) else (4 * x / denom, 9 * y / denom))"

definition XyzToLuvWhiteRef :: "real \<Rightarrow> real \<Rightarrow> real \<Rightarrow> triple \<Rightarrow> triple" where
  "XyzToLuvWhiteRef x y z wref =
     (case wref of (w0, w1, w2) \<Rightarrow>
        (let l = (if y / w1 \<le> 6 / 29 * 6 / 29 * 6 / 29
                  then y / w1 * (29 / 3 * 29 / 3 * 29 / 3) / 100
                  else 1.16 * root 3 (y / w1) - 0.16);
             (ubis, vbis) = xyz_to_uv x y z;
             (un, vn) = xyz_to_uv w0 w1 w2
         in (l, 13 * l * (ubis - un), 13 * l * (vbis - vn))))"

definition XyzToLuv :: "real \<Rightarrow> real \<Rightarrow> real \<Rightarrow> triple" where
  "XyzToLuv x y z = XyzToLuvWhiteRef x y z D65"

definition LuvToXyzWhiteRef :: "real \<Rightarrow> real \<Rightarrow> real \<Rightarrow> triple \<Rightarrow> triple" where
  "LuvToXyzWhiteRef l u v wref =
     (case wref of (w0, w1, w2) \<Rightarrow>
        (let y = (if l \<le> 0.08 then w1 * l * 100 * 3 / 29 * 3 / 29 * 3 / 29
                  else w1 * cub ((l + 0.16) / 1.16));
             (un, vn) = xyz_to_uv w0 w1 w2
         in if l \<noteq> 0 then
              (let ubis = u / (13 * l) + un;
                   vbis = v / (13 * l) + vn
               in (y * 9 * ubis / (4 * vbis), y, y * (12 - 3 * ubis - 20 * vbis) / (4 * vbis)))
            else (0, 0, 0)))"

definition LuvToXyz :: "real \<Rightarrow> real \<Rightarrow> real \<Rightarrow> triple" where
  "LuvToXyz l u v = LuvToXyzWhiteRef l u v D65"

definition Color_Luv :: "Color \<Rightarrow> triple" where
  "Color_Luv col = (case Color_Xyz col of (x, y, z) \<Rightarrow> XyzToLuv x y z)"

definition Color_LuvWhiteRef :: "Color \<Rightarrow> triple \<Rightarrow> triple" where
  "Color_LuvWhiteRef col wref = (case Color_Xyz col of (x, y, z) \<Rightarrow> XyzToLuvWhiteRef x y z wref)"

definition Luv :: "real \<Rightarrow> real \<Rightarrow> real \<Rightarrow> Color" where
  "Luv l u v = (case LuvToXyz l u v of (x, y, z) \<Rightarrow> Xyz x y z)"

definition LuvWhiteRef :: "real \<Rightarrow> real \<Rightarrow> real \<Rightarrow> triple \<Rightarrow> Color" where
  "LuvWhiteRef l u v wref = (case LuvToXyzWhiteRef l u v wref of (x, y, z) \<Rightarrow> Xyz x y z)"

definition DistanceLuv :: "Color \<Rightarrow> Color \<Rightarrow> real" where
  "DistanceLuv c1 c2 =
     (case (Color_Luv c1, Color_Luv c2) of ((l1, u1, v1), (l2, u2, v2)) \<Rightarrow>
        sqrt (sq (l1 - l2) + sq (u1 - u2) + sq (v1 - v2)))"

definition BlendLuv :: "Color \<Rightarrow> Color \<Rightarrow> real \<Rightarrow> Color" where
  "BlendLuv c1 c2 t =
     (case (Color_Luv c1, Color_Luv c2) of ((l1, u1, v1), (l2, u2, v2)) \<Rightarrow>
        Luv (l1 + t * (l2 - l1)) (u1 + t * (u2 - u1)) (v1 + t * (v2 - v1)))"

section \<open>HCL, the polar form of L*a*b*\<close>

definition LabToHcl :: "real \<Rightarrow> real \<Rightarrow> real \<Rightarrow> triple" where
  "LabToHcl L a b =
     (let h = (if \<bar>b - a\<bar> > 0.0001 \<and> \<bar>a\<bar> > 0.0001
               then math_Mod (57.29577951308232087721 * math_Atan2 b a + 360) 360
               else 0)
      in (h, sqrt (sq a + sq b), L))"

definition Color_HclWhiteRef :: "Color \<Rightarrow> triple \<Rightarrow> triple" where
  "Color_HclWhiteRef col wref = (case Color_LabWhiteRef col wref of (L, a, b) \<Rightarrow> LabToHcl L a b)"

definition Color_Hcl :: "Color \<Rightarrow> triple" where
  "Color_Hcl col = Color_HclWhiteRef col D65"

definition HclToLab :: "real \<Rightarrow> real \<Rightarrow> real \<Rightarrow> triple" where
  "HclToLab h c l =
     (let H = 0.01745329251994329576 * h
      in (l, c * cos H, c * sin H))"

definition HclWhiteRef :: "real \<Rightarrow> real \<Rightarrow> real \<Rightarrow> triple \<Rightarrow> Color" where
  "HclWhiteRef h c l wref = (case HclToLab h c l of (L, a, b) \<Rightarrow> LabWhiteRef L a b wref)"

definition Hcl :: "real \<Rightarrow> real \<Rightarrow> real \<Rightarrow> Color" where
  "Hcl h c l = HclWhiteRef h c l D65"

definition BlendHcl_coords :: "Color \<Rightarrow> Color \<Rightarrow> real \<Rightarrow> triple" where
  \<comment> \<open>the body of \<^verbatim>\<open>BlendHcl\<close> up to the three arguments of its final call of \<^verbatim>\<open>Hcl\<close>\<close>
  "BlendHcl_coords col1 col2 t =
     (case (Color_Hcl col1, Color_Hcl col2) of ((h1, c1, l1), (h2, c2, l2)) \<Rightarrow>
        (let (h1', h2') =
               (if c1 \<le> 0.00015 \<and> c2 \<ge> 0.00015 then (h2, h2)
                else if c2 \<le> 0.00015 \<and> c1 \<ge> 0.00015 then (h1, h1)
                else (h1, h2))
         in (interp_angle h1' h2' t, c1 + t * (c2 - c1), l1 + t * (l2 - l1))))"

definition BlendHcl :: "Color \<Rightarrow> Color \<Rightarrow> real \<Rightarrow> Color" where
  "BlendHcl col1 col2 t = (case BlendHcl_coords col1 col2 t of (h, c, l) \<Rightarrow> Clamped (Hcl h c l))"

section \<open>LuvLCh, the polar form of L*u*v*\<close>

definition LuvToLuvLCh :: "real \<Rightarrow> real \<Rightarrow> real \<Rightarrow> triple" where
  "LuvToLuvLCh L u v =
     (let h = (if \<bar>v - u\<bar> > 0.0001 \<and> \<bar>u\<bar> > 0.0001
               then math_Mod (57.29577951308232087721 * math_Atan2 v u + 360) 360
               else 0)
      in (L, sqrt (sq u + sq v), h))"

definition Color_LuvLChWhiteRef :: "Color \<Rightarrow> triple \<Rightarrow> triple" where
  "Color_LuvLChWhiteRef col wref = (case Color_LuvWhiteRef col wref of (L, u, v) \<Rightarrow> LuvToLuvLCh L u v)"

definition Color_LuvLCh :: "Color \<Rightarrow> triple" where
  "Color_LuvLCh col = Color_LuvLChWhiteRef col D65"

definition LuvLChToLuv :: "real \<Rightarrow> real \<Rightarrow> real \<Rightarrow> triple" where
  "LuvLChToLuv l c h =
     (let H = 0.01745329251994329576 * h
      in (l, c * cos H, c * sin H))"

definition LuvLChWhiteRef :: "real \<Rightarrow> real \<Rightarrow> real \<Rightarrow> triple \<Rightarrow> Color" where
  "LuvLChWhiteRef l c h wref = (case LuvLChToLuv l c h of (L, u, v) \<Rightarrow> LuvWhiteRef L u v wref)"

definition LuvLCh :: "real \<Rightarrow> real \<Rightarrow> real \<Rightarrow> Color" where
  "LuvLCh l c h = LuvLChWhiteRef l c h D65"

definition BlendLuvLCh_coords :: "Color \<Rightarrow> Color \<Rightarrow> real \<Rightarrow> triple" where
  \<comment> \<open>the body of \<^verbatim>\<open>BlendLuvLCh\<close> up to the three arguments of its final call of \<^verbatim>\<open>LuvLCh\<close>\<close>
  "BlendLuvLCh_coords col1 col2 t =
     (case (Color_LuvLCh col1, Color_LuvLCh col2) of ((l1, c1, h1), (l2, c2, h2)) \<Rightarrow>
        (l1 + t * (l2 - l1), c1 + t * (c2 - c1), interp_angle h1 h2 t))"

definition BlendLuvLCh :: "Color \<Rightarrow> Color \<Rightarrow> real \<Rightarrow> Color" where
  "BlendLuvLCh col1 col2 t = (case BlendLuvLCh_coords col1 col2 t of (l, c, h) \<Rightarrow> LuvLCh l c h)"

section \<open>The second half of the CIEDE2000 formula, named for the proofs\<close>




section \<open>Facts about the remainder\<close>

lemma math_Mod_nonneg:
  assumes "0 \<le> x" and "0 < y"
  shows "0 \<le> math_Mod x y" and "math_Mod x y < y"
proof -
  have q: "0 \<le> x / y" using assms by simp
  have eq: "math_Mod x y = x - y * of_int \<lfloor>x / y\<rfloor>"
    using q by (simp add: math_Mod_def trunc_def)
  have "of_int \<lfloor>x / y\<rfloor> \<le> x / y" by simp
  then have "of_int \<lfloor>x / y\<rfloor> * y \<le> (x / y) * y"
    using assms(2) by (intro mult_right_mono) simp_all
  then have "y * of_int \<lfloor>x / y\<rfloor> \<le> x"
    using assms(2) by (simp add: mult.commute)
  then show "0 \<le> math_Mod x y" using eq by simp
  have "x / y < of_int \<lfloor>x / y\<rfloor> + 1" by linarith
  then have "(x / y) * y < (of_int \<lfloor>x / y\<rfloor> + 1) * y"
    using assms(2) by (simp only: mult_less_cancel_right_pos)
  then have "x < (of_int \<lfloor>x / y\<rfloor> + 1) * y"
    using assms(2) by simp
  then show "math_Mod x y < y" using eq by (simp add: algebra_simps)
qed

lemma math_Mod_small:
  assumes "0 \<le> x" and "x < y"
  shows "math_Mod x y = x"
proof -
  have "0 \<le> x / y" "x / y < 1" using assms by simp_all
  then have "\<lfloor>x / y\<rfloor> = 0" by linarith
  then show ?thesis using \<open>0 \<le> x / y\<close> by (simp add: math_Mod_def trunc_def)
qed

lemma math_Mod_abs_less:
  assumes "0 < y"
  shows "\<bar>math_Mod x y\<bar> < y"
proof (cases "0 \<le> x")
  case True
  then show ?thesis using math_Mod_nonneg[OF True assms] by simp
next
  case False
  then have neg: "x / y < 0" using assms by (simp add: divide_neg_pos)
  have eq: "math_Mod x y = x - y * of_int \<lceil>x / y\<rceil>"
    using neg by (simp add: math_Mod_def trunc_def)
  have "x / y \<le> of_int \<lceil>x / y\<rceil>" by simp
  then have "(x / y) * y \<le> of_int \<lceil>x / y\<rceil> * y"
    using assms by (intro mult_right_mono) simp_all
  then have a: "x \<le> y * of_int \<lceil>x / y\<rceil>"
    using assms by (simp add: mult.commute)
  have "of_int \<lceil>x / y\<rceil> < x / y + 1" by linarith
  then have "of_int \<lceil>x / y\<rceil> * y < (x / y + 1) * y"
    using assms by (simp only: mult_less_cancel_right_pos)
  then have b: "y * of_int \<lceil>x / y\<rceil> < x + y"
    using assms by (simp add: algebra_simps)
  show ?thesis using a b eq by simp
qed

lemma math_Mod_congruent: "\<exists>k::int. math_Mod x y = x - y * of_int k"
  by (auto simp: math_Mod_def)

lemma math_Mod_shift:
  assumes "0 \<le> x" and "x < y"
  shows "math_Mod (x + y) y = x"
proof -
  have y: "0 < y" using assms by simp
  have "(x + y) / y = x / y + 1" using y by (simp add: field_simps)
  moreover have "0 \<le> x / y" "x / y < 1" using assms by simp_all
  ultimately have f: "\<lfloor>(x + y) / y\<rfloor> = 1" and p: "0 \<le> (x + y) / y" by linarith+
  show ?thesis using f p by (simp add: math_Mod_def trunc_def)
qed

section \<open>Almost equal colors\<close>

text \<open>
  C7.  \<^verbatim>\<open>AlmostEqualRgb(c1, c2)\<close> is true exactly when the sum of the absolute channel
  differences is strictly below three times \<open>Delta = 1/255\<close>.  Hence a color is almost
  equal to itself, and two colors that differ by more than \<open>1/255\<close> in every channel are
  not almost equal.
\<close>

theorem AlmostEqualRgb_spec:
  "(AlmostEqualRgb c1 c2 \<longleftrightarrow>
      \<bar>R c1 - R c2\<bar> + \<bar>G c1 - G c2\<bar> + \<bar>B c1 - B c2\<bar> < 3 * (1 / 255))
   \<and> Delta = 1 / 255
   \<and> AlmostEqualRgb c c
   \<and> (\<bar>R c1 - R c2\<bar> > 1 / 255 \<and> \<bar>G c1 - G c2\<bar> > 1 / 255 \<and> \<bar>B c1 - B c2\<bar> > 1 / 255
        \<longrightarrow> \<not> AlmostEqualRgb c1 c2)"
  by (auto simp: AlmostEqualRgb_def Delta_def)

theorem AlmostEqualRgb_spec_witness:
  "\<bar>R \<lparr>R = 0, G = 0, B = 0\<rparr> - R \<lparr>R = 1, G = 1, B = 1\<rparr>\<bar> > 1 / 255
   \<and> \<bar>G \<lparr>R = 0, G = 0, B = 0\<rparr> - G \<lparr>R = 1, G = 1, B = 1\<rparr>\<bar> > 1 / 255
   \<and> \<bar>B \<lparr>R = 0, G = 0, B = 0\<rparr> - B \<lparr>R = 1, G = 1, B = 1\<rparr>\<bar> > 1 / 255
   \<and> \<not> AlmostEqualRgb \<lparr>R = 0, G = 0, B = 0\<rparr> \<lparr>R = 1, G = 1, B = 1\<rparr>
   \<and> AlmostEqualRgb \<lparr>R = 0.5, G = 0.5, B = 0.5\<rparr> \<lparr>R = 0.5, G = 0.5, B = 0.5\<rparr>
   \<and> AlmostEqualRgb \<lparr>R = 0.5, G = 0.5, B = 0.5\<rparr> \<lparr>R = 0.501, G = 0.5, B = 0.5\<rparr>"
  using AlmostEqualRgb_spec
    [of "\<lparr>R = 0, G = 0, B = 0\<rparr>" "\<lparr>R = 1, G = 1, B = 1\<rparr>" "\<lparr>R = 0.5, G = 0.5, B = 0.5\<rparr>"]
    AlmostEqualRgb_spec
    [of "\<lparr>R = 0.5, G = 0.5, B = 0.5\<rparr>" "\<lparr>R = 0.501, G = 0.5, B = 0.5\<rparr>" "\<lparr>R = 0.5, G = 0.5, B = 0.5\<rparr>"]
  by simp

section \<open>Interpolating angles\<close>

lemma interp_delta_range:
  fixes a0 a1 :: real
  defines "d \<equiv> math_Mod (math_Mod (a1 - a0) 360 + 540) 360 - 180"
  shows "- 180 \<le> d" and "d < 180" and "\<exists>k::int. d = a1 - a0 + 360 * of_int k"
proof -
  let ?m = "math_Mod (a1 - a0) 360"
  have m: "\<bar>?m\<bar> < 360" by (rule math_Mod_abs_less) simp
  then have pos: "0 \<le> ?m + 540" by linarith
  have "0 \<le> math_Mod (?m + 540) 360" "math_Mod (?m + 540) 360 < 360"
    using math_Mod_nonneg[OF pos, of 360] by simp_all
  then show "- 180 \<le> d" "d < 180" by (simp_all add: d_def)
  obtain k1 :: int where k1: "?m = (a1 - a0) - 360 * of_int k1"
    using math_Mod_congruent by blast
  obtain k2 :: int where k2: "math_Mod (?m + 540) 360 = (?m + 540) - 360 * of_int k2"
    using math_Mod_congruent by blast
  have "d = a1 - a0 + 360 * of_int (1 - k1 - k2)"
    unfolding d_def k2 using k1 by simp
  then show "\<exists>k::int. d = a1 - a0 + 360 * of_int k" by blast
qed

lemma interp_angle_range:
  assumes "0 \<le> a0" and "0 \<le> t" and "t \<le> 1"
  shows "0 \<le> interp_angle a0 a1 t" and "interp_angle a0 a1 t < 360"
proof -
  let ?d = "math_Mod (math_Mod (a1 - a0) 360 + 540) 360 - 180"
  have d: "- 180 \<le> ?d" by (rule interp_delta_range)
  have "t * ?d \<ge> - 180"
  proof (cases "0 \<le> ?d")
    case True
    then have "0 \<le> t * ?d" using assms by simp
    then show ?thesis by linarith
  next
    case False
    then have "t * ?d \<ge> 1 * ?d" using assms by (intro mult_right_mono_neg) simp_all
    then show ?thesis using d by simp
  qed
  then have pos: "0 \<le> a0 + t * ?d + 360" using assms by linarith
  show "0 \<le> interp_angle a0 a1 t" "interp_angle a0 a1 t < 360"
    using math_Mod_nonneg[OF pos, of 360] by (simp_all add: interp_angle_def Let_def)
qed

lemma interp_angle_example: "interp_angle 350 10 (1/2) = 0"
  by (simp add: interp_angle_def math_Mod_def trunc_def)

lemma math_Mod_small_abs:
  assumes "\<bar>x\<bar> < y"
  shows "math_Mod x y = x"
proof (cases "0 \<le> x")
  case True
  then show ?thesis using assms by (intro math_Mod_small) simp_all
next
  case False
  then have y: "0 < y" and neg: "x / y < 0" and gt: "- 1 < x / y"
    using assms by (simp_all add: divide_neg_pos pos_less_divide_eq)
  then have "\<lceil>x / y\<rceil> = 0" by linarith
  then show ?thesis using neg by (simp add: math_Mod_def trunc_def)
qed

lemma ratio_bounds:
  fixes x y C :: real
  assumes "0 < C" and "\<bar>x - y\<bar> \<le> C"
  shows "- 1 \<le> (x - y) / C" and "(x - y) / C \<le> 1"
  using assms by (simp_all add: pos_le_divide_eq pos_divide_le_eq)

lemma Color_Hsv_hue_range:
  "0 \<le> fst (Color_Hsv col) \<and> fst (Color_Hsv col) < 360"
proof -
  define v where "v = max (max (R col) (G col)) (B col)"
  define mn where "mn = min (min (R col) (G col)) (B col)"
  show ?thesis
  proof (cases "mn = v")
    case True
    then show ?thesis
      by (simp add: Color_Hsv_def Let_def v_def mn_def)
  next
    case False
    then have C: "0 < v - mn" by (auto simp: v_def mn_def)
    have gb: "\<bar>G col - B col\<bar> \<le> v - mn" and br: "\<bar>B col - R col\<bar> \<le> v - mn"
      and rg: "\<bar>R col - G col\<bar> \<le> v - mn"
      by (auto simp: v_def mn_def)
    note b1 = ratio_bounds[OF C gb] and b2 = ratio_bounds[OF C br] and b3 = ratio_bounds[OF C rg]
    have m: "math_Mod ((G col - B col) / (v - mn)) 6 = (G col - B col) / (v - mn)"
      using b1 by (intro math_Mod_small_abs) linarith
    have one: "v = R col \<or> v = G col \<or> v = B col" by (auto simp: v_def)
    define h3 where "h3 = (if v = B col then (R col - G col) / (v - mn) + 4
                           else if v = G col then (B col - R col) / (v - mn) + 2
                           else if v = R col then (G col - B col) / (v - mn) else 0)"
    have h3: "- 1 \<le> h3 \<and> h3 \<le> 5"
    proof (cases "v = B col")
      case True
      then have "h3 = (R col - G col) / (v - mn) + 4" by (simp add: h3_def)
      then show ?thesis using b3 by linarith
    next
      case nb: False
      show ?thesis
      proof (cases "v = G col")
        case True
        then have "h3 = (B col - R col) / (v - mn) + 2" using nb by (simp add: h3_def)
        then show ?thesis using b2 by linarith
      next
        case False
        then have "v = R col" using one nb by blast
        then have "h3 = (G col - B col) / (v - mn)"
          using nb False by (simp add: h3_def)
        then show ?thesis using b1 by linarith
      qed
    qed
    have v': "max (max (R col) (G col)) (B col) = v"
      and mn': "min (min (R col) (G col)) (B col) = mn"
      by (simp_all only: v_def mn_def)
    have "fst (Color_Hsv col) = (if h3 * 60 < 0 then h3 * 60 + 360 else h3 * 60)"
      unfolding Color_Hsv_def Let_def v' mn' m h3_def
      using False by simp
    then show ?thesis
      using h3 by simp
  qed
qed

lemma math_Atan2_bounds: "- pi \<le> math_Atan2 y x \<and> math_Atan2 y x \<le> pi"
proof -
  have a: "- (pi / 2) < arctan (y / x)" "arctan (y / x) < pi / 2"
    by (rule arctan_lbound, rule arctan_ubound)
  have p: "2 \<le> pi" by (rule pi_ge_two)
  consider "0 < x" | "x < 0" "0 \<le> y" | "x < 0" "y < 0" | "x = 0" by linarith
  then show ?thesis
  proof cases
    case 1
    then show ?thesis using a p by (simp add: math_Atan2_def)
  next
    case 2
    then have "y / x \<le> 0" by (simp add: divide_nonneg_neg)
    then have "arctan (y / x) \<le> 0" by (simp add: arctan_le_zero_iff)
    then show ?thesis using 2 a p by (simp add: math_Atan2_def)
  next
    case 3
    then have "0 < y / x" by (simp add: divide_neg_neg)
    then have "0 < arctan (y / x)" by (simp add: zero_less_arctan_iff)
    then show ?thesis using 3 a p by (simp add: math_Atan2_def)
  next
    case 4
    then show ?thesis using pi_ge_two by (simp add: math_Atan2_def)
  qed
qed

lemma polar_hue_range:
  fixes y x :: real
  defines "h \<equiv> math_Mod (57.29577951308232087721 * math_Atan2 y x + 360) 360"
  shows "0 \<le> h" and "h < 360"
proof -
  have "- pi \<le> math_Atan2 y x" using math_Atan2_bounds by simp
  then have "- 4 < math_Atan2 y x" using pi_less_4 by linarith
  then have pos: "0 \<le> 57.29577951308232087721 * math_Atan2 y x + 360" by simp
  show "0 \<le> h" "h < 360"
    using math_Mod_nonneg[OF pos, of 360] by (simp_all add: h_def)
qed

lemma LabToHcl_hue_range: "0 \<le> fst (LabToHcl L a b) \<and> fst (LabToHcl L a b) < 360"
  using polar_hue_range[of b a] by (simp add: LabToHcl_def Let_def)

lemma LuvToLuvLCh_hue_range:
  "0 \<le> snd (snd (LuvToLuvLCh L u v)) \<and> snd (snd (LuvToLuvLCh L u v)) < 360"
  using polar_hue_range[of v u] by (simp add: LuvToLuvLCh_def Let_def)

lemma Color_Hcl_hue_range: "0 \<le> fst (Color_Hcl col) \<and> fst (Color_Hcl col) < 360"
  using LabToHcl_hue_range
  by (simp add: Color_Hcl_def Color_HclWhiteRef_def split: prod.splits)

lemma Color_LuvLCh_hue_range:
  "0 \<le> snd (snd (Color_LuvLCh col)) \<and> snd (snd (Color_LuvLCh col)) < 360"
  using LuvToLuvLCh_hue_range
  by (simp add: Color_LuvLCh_def Color_LuvLChWhiteRef_def split: prod.splits)

lemma BlendHsv_coords_hue:
  assumes "0 \<le> t" and "t \<le> 1"
  shows "0 \<le> fst (BlendHsv_coords c1 c2 t) \<and> fst (BlendHsv_coords c1 c2 t) < 360"
proof -
  obtain h1 s1 v1 where e1: "Color_Hsv c1 = (h1, s1, v1)" by (cases "Color_Hsv c1") auto
  obtain h2 s2 v2 where e2: "Color_Hsv c2 = (h2, s2, v2)" by (cases "Color_Hsv c2") auto
  have "0 \<le> h1" "0 \<le> h2"
    using Color_Hsv_hue_range[of c1] Color_Hsv_hue_range[of c2] e1 e2 by simp_all
  then show ?thesis
    using interp_angle_range[OF _ assms]
    by (simp add: BlendHsv_coords_def e1 e2)
qed

lemma BlendHcl_coords_hue:
  assumes "0 \<le> t" and "t \<le> 1"
  shows "0 \<le> fst (BlendHcl_coords c1 c2 t) \<and> fst (BlendHcl_coords c1 c2 t) < 360"
proof -
  obtain h1 s1 v1 where e1: "Color_Hcl c1 = (h1, s1, v1)" by (cases "Color_Hcl c1") auto
  obtain h2 s2 v2 where e2: "Color_Hcl c2 = (h2, s2, v2)" by (cases "Color_Hcl c2") auto
  have "0 \<le> h1" "0 \<le> h2"
    using Color_Hcl_hue_range[of c1] Color_Hcl_hue_range[of c2] e1 e2 by simp_all
  then show ?thesis
    using interp_angle_range[OF _ assms]
    by (simp add: BlendHcl_coords_def e1 e2)
qed

lemma BlendLuvLCh_coords_hue:
  assumes "0 \<le> t" and "t \<le> 1"
  shows "0 \<le> snd (snd (BlendLuvLCh_coords c1 c2 t)) \<and> snd (snd (BlendLuvLCh_coords c1 c2 t)) < 360"
proof -
  obtain l1 k1 h1 where e1: "Color_LuvLCh c1 = (l1, k1, h1)" by (cases "Color_LuvLCh c1") auto
  obtain l2 k2 h2 where e2: "Color_LuvLCh c2 = (l2, k2, h2)" by (cases "Color_LuvLCh c2") auto
  have "0 \<le> h1" "0 \<le> h2"
    using Color_LuvLCh_hue_range[of c1] Color_LuvLCh_hue_range[of c2] e1 e2 by simp_all
  then show ?thesis
    using interp_angle_range[OF _ assms]
    by (simp add: BlendLuvLCh_coords_def e1 e2)
qed

text \<open>
  C9, as the claim states it, fails: it lets \<^verbatim>\<open>interp_angle\<close> wrap its result into
  \<open>[0, 360)\<close> for all arguments.  \<^verbatim>\<open>math.Mod\<close> keeps the sign of its first argument, so a
  start angle below the documented range \<open>[0, 360]\<close>, or a \<open>t\<close> outside \<open>[0, 1]\<close>, can give
  a negative result.
\<close>

theorem interp_angle_wrap_counterexample:
  "interp_angle 0 190 3 = - 150 \<and> interp_angle (- 400) 0 0 = - 40
   \<and> \<not> (0 \<le> interp_angle 0 190 3 \<and> interp_angle 0 190 3 < 360)"
  by (simp add: interp_angle_def math_Mod_def trunc_def ceiling_eq_iff)

text \<open>
  C9, amended.  \<^verbatim>\<open>interp_angle(a0, a1, t)\<close> takes
  \<open>delta = ((a1 - a0) mod 360 + 540) mod 360 - 180\<close> (with \<^verbatim>\<open>math.Mod\<close> for \<open>mod\<close>), adds
  \<open>t * delta\<close> to \<open>a0\<close> and applies \<^verbatim>\<open>math.Mod\<close> by 360 to the sum plus 360.  The step \<open>delta\<close>
  is the shortest signed way round the circle: it lies in \<open>[-180, 180)\<close> and differs from
  \<open>a1 - a0\<close> by a multiple of 360.  The result is \<open>a0 + t * delta\<close> up to a multiple of 360,
  and for a start angle in \<open>[0, 360]\<close> and \<open>t\<close> in \<open>[0, 1]\<close> it lies in \<open>[0, 360)\<close>.  From 350
  to 10 degrees at \<open>t = 1/2\<close> the result is 0, not 180.
\<close>

theorem interp_angle_shortest_path:
  "(let delta = math_Mod (math_Mod (a1 - a0) 360 + 540) 360 - 180
    in interp_angle a0 a1 t = math_Mod (a0 + t * delta + 360) 360
       \<and> - 180 \<le> delta \<and> delta < 180
       \<and> (\<exists>k::int. delta = a1 - a0 + 360 * of_int k)
       \<and> (\<exists>k::int. interp_angle a0 a1 t = a0 + t * delta + 360 * of_int k)
       \<and> (0 \<le> a0 \<and> a0 \<le> 360 \<and> 0 \<le> t \<and> t \<le> 1
            \<longrightarrow> 0 \<le> interp_angle a0 a1 t \<and> interp_angle a0 a1 t < 360))
   \<and> interp_angle 350 10 (1 / 2) = 0
   \<and> interp_angle 350 10 (1 / 2) \<noteq> 180"
proof -
  let ?d = "math_Mod (math_Mod (a1 - a0) 360 + 540) 360 - 180"
  have f: "interp_angle a0 a1 t = math_Mod (a0 + t * ?d + 360) 360"
    by (simp add: interp_angle_def Let_def)
  obtain k :: int where "math_Mod (a0 + t * ?d + 360) 360 = (a0 + t * ?d + 360) - 360 * of_int k"
    using math_Mod_congruent by blast
  then have "interp_angle a0 a1 t = a0 + t * ?d + 360 * of_int (1 - k)"
    using f by simp
  then have c: "\<exists>k::int. interp_angle a0 a1 t = a0 + t * ?d + 360 * of_int k" by blast
  show ?thesis
    unfolding Let_def
    using f c interp_delta_range[of a1 a0] interp_angle_range[of a0 t a1] interp_angle_example
    by simp
qed

theorem interp_angle_shortest_path_witness:
  "(0::real) \<le> 350 \<and> (350::real) \<le> 360 \<and> (0::real) \<le> 1 / 2 \<and> (1 / 2 :: real) \<le> 1
   \<and> math_Mod (math_Mod (10 - 350) 360 + 540) 360 - 180 = 20
   \<and> 0 \<le> interp_angle 350 10 (1 / 2) \<and> interp_angle 350 10 (1 / 2) < 360
   \<and> interp_angle 350 10 (1 / 2) = 0"
proof -
  have d: "math_Mod (math_Mod (10 - 350) 360 + 540) 360 - 180 = 20"
    by (simp add: math_Mod_def trunc_def)
  show ?thesis
    using interp_angle_shortest_path[of 10 350 "1 / 2"] d by (simp add: Let_def)
qed

text \<open>
  C10.  For angles \<open>a0\<close>, \<open>a1\<close> in \<open>[0, 360]\<close> and \<open>t\<close> in \<open>[0, 1]\<close> the result of
  \<^verbatim>\<open>interp_angle\<close> lies in \<open>[0, 360)\<close>.  Consequently the hue that \<^verbatim>\<open>BlendHsv\<close>,
  \<^verbatim>\<open>BlendHcl\<close> and \<^verbatim>\<open>BlendLuvLCh\<close> hand to \<^verbatim>\<open>Hsv\<close>, \<^verbatim>\<open>Hcl\<close> and \<^verbatim>\<open>LuvLCh\<close> lies in
  \<open>[0, 360)\<close>, for all colors and every \<open>t\<close> in \<open>[0, 1]\<close>.
\<close>

theorem blend_hue_in_range:
  "(0 \<le> a0 \<and> a0 \<le> 360 \<and> 0 \<le> a1 \<and> a1 \<le> 360 \<and> 0 \<le> t \<and> t \<le> 1
      \<longrightarrow> 0 \<le> interp_angle a0 a1 t \<and> interp_angle a0 a1 t < 360)
   \<and> (0 \<le> t \<and> t \<le> 1 \<longrightarrow>
        (case BlendHsv_coords c1 c2 t of (h, s, v) \<Rightarrow>
           0 \<le> h \<and> h < 360 \<and> BlendHsv c1 c2 t = Hsv h s v)
      \<and> (case BlendHcl_coords c1 c2 t of (h, c, l) \<Rightarrow>
           0 \<le> h \<and> h < 360 \<and> BlendHcl c1 c2 t = Clamped (Hcl h c l))
      \<and> (case BlendLuvLCh_coords c1 c2 t of (l, c, h) \<Rightarrow>
           0 \<le> h \<and> h < 360 \<and> BlendLuvLCh c1 c2 t = LuvLCh l c h))"
proof -
  have 1: "0 \<le> a0 \<and> a0 \<le> 360 \<and> 0 \<le> a1 \<and> a1 \<le> 360 \<and> 0 \<le> t \<and> t \<le> 1
      \<longrightarrow> 0 \<le> interp_angle a0 a1 t \<and> interp_angle a0 a1 t < 360"
    using interp_angle_range[of a0 t a1] by simp
  have 2: "case BlendHsv_coords c1 c2 t of (h, s, v) \<Rightarrow>
           0 \<le> h \<and> h < 360 \<and> BlendHsv c1 c2 t = Hsv h s v" if "0 \<le> t" "t \<le> 1"
    using BlendHsv_coords_hue[OF that, of c1 c2]
    by (auto simp: BlendHsv_def split: prod.splits)
  have 3: "case BlendHcl_coords c1 c2 t of (h, c, l) \<Rightarrow>
           0 \<le> h \<and> h < 360 \<and> BlendHcl c1 c2 t = Clamped (Hcl h c l)" if "0 \<le> t" "t \<le> 1"
    using BlendHcl_coords_hue[OF that, of c1 c2]
    by (auto simp: BlendHcl_def split: prod.splits)
  have 4: "case BlendLuvLCh_coords c1 c2 t of (l, c, h) \<Rightarrow>
           0 \<le> h \<and> h < 360 \<and> BlendLuvLCh c1 c2 t = LuvLCh l c h" if "0 \<le> t" "t \<le> 1"
    using BlendLuvLCh_coords_hue[OF that, of c1 c2]
    by (auto simp: BlendLuvLCh_def split: prod.splits)
  show ?thesis using 1 2 3 4 by simp
qed

theorem blend_hue_in_range_witness:
  "(0::real) \<le> 350 \<and> (350::real) \<le> 360 \<and> (0::real) \<le> 10 \<and> (10::real) \<le> 360
   \<and> (0::real) \<le> 1 / 2 \<and> (1 / 2 :: real) \<le> 1
   \<and> 0 \<le> interp_angle 350 10 (1 / 2) \<and> interp_angle 350 10 (1 / 2) < 360
   \<and> BlendHsv_coords \<lparr>R = 1, G = 0, B = 0\<rparr> \<lparr>R = 0, G = 0, B = 1\<rparr> (1 / 2) = (300, 1, 1)
   \<and> BlendHsv \<lparr>R = 1, G = 0, B = 0\<rparr> \<lparr>R = 0, G = 0, B = 1\<rparr> (1 / 2) = Hsv 300 1 1
   \<and> (case BlendHcl_coords \<lparr>R = 1, G = 0, B = 0\<rparr> \<lparr>R = 0, G = 0, B = 1\<rparr> (1 / 2) of (h, c, l) \<Rightarrow>
           0 \<le> h \<and> h < 360)
   \<and> (case BlendLuvLCh_coords \<lparr>R = 1, G = 0, B = 0\<rparr> \<lparr>R = 0, G = 0, B = 1\<rparr> (1 / 2) of (l, c, h) \<Rightarrow>
           0 \<le> h \<and> h < 360)"
proof -
  have e: "BlendHsv_coords \<lparr>R = 1, G = 0, B = 0\<rparr> \<lparr>R = 0, G = 0, B = 1\<rparr> (1 / 2) = (300, 1, 1)"
    by (simp add: BlendHsv_coords_def Color_Hsv_def interp_angle_def math_Mod_def trunc_def Let_def)
  show ?thesis
    using blend_hue_in_range[of 350 10 "1 / 2" "\<lparr>R = 1, G = 0, B = 0\<rparr>" "\<lparr>R = 0, G = 0, B = 1\<rparr>"] e
    by (auto split: prod.splits)
qed

section \<open>Black in xyY, and the hue arguments of the inverse conversions\<close>

lemma Color_Xyz_black: "Color_Xyz \<lparr>R = 0, G = 0, B = 0\<rparr> = (0, 0, 0)"
  by (simp add: Color_Xyz_def Color_LinearRgb_def linearize_def LinearRgbToXyz_def)

lemma Hsv_out_of_range:
  assumes "H < 0 \<or> 360 < H"
  shows "Hsv H S V = \<lparr>R = V - V * S, G = V - V * S, B = V - V * S\<rparr>"
proof -
  have "\<not> (0 \<le> H / 60 \<and> H / 60 < 6)" using assms by auto
  then show ?thesis by (auto simp: Hsv_def Let_def)
qed

lemma Hsl_wrap_turn:
  assumes "- 1 \<le> t" and "t \<le> 1"
  shows "Hsl_channel t1 t2 (Hsl_wrap (t + 1)) = Hsl_channel t1 t2 (Hsl_wrap t)"
proof -
  consider "t < 0" | "t = 0" | "0 < t" by linarith
  then show ?thesis
  proof cases
    case 1
    then show ?thesis using assms by (simp add: Hsl_wrap_def Let_def)
  next
    case 2
    then show ?thesis by (simp add: Hsl_wrap_def Hsl_channel_def Let_def)
  next
    case 3
    then show ?thesis using assms by (simp add: Hsl_wrap_def Let_def)
  qed
qed

lemma Hsl_one_turn:
  assumes "- 240 \<le> h" and "h \<le> 240"
  shows "Hsl (h + 360) s l = Hsl h s l"
proof -
  have e: "(h + 360) / 360 = h / 360 + 1" by (simp add: add_divide_distrib)
  have a: "(h + 360) / 360 + 1 / 3 = (h / 360 + 1 / 3) + 1"
    and b: "(h + 360) / 360 - 1 / 3 = (h / 360 - 1 / 3) + 1" by (simp_all add: add_divide_distrib)
  have r: "- 1 \<le> h / 360 + 1 / 3" "h / 360 + 1 / 3 \<le> 1" "- 1 \<le> h / 360" "h / 360 \<le> 1"
    "- 1 \<le> h / 360 - 1 / 3" "h / 360 - 1 / 3 \<le> 1" using assms by simp_all
  show ?thesis
    unfolding Hsl_def Let_def a b
    unfolding e
    using Hsl_wrap_turn[OF r(1,2)] Hsl_wrap_turn[OF r(3,4)] Hsl_wrap_turn[OF r(5,6)]
    by simp
qed

lemma polar_period:
  fixes k :: real
  assumes "k \<noteq> 0"
  shows "cos (k * (h + 2 * pi / k)) = cos (k * h)" and "sin (k * (h + 2 * pi / k)) = sin (k * h)"
proof -
  have "k * (h + 2 * pi / k) = k * h + 2 * pi" using assms by (simp add: field_simps)
  then show "cos (k * (h + 2 * pi / k)) = cos (k * h)" "sin (k * (h + 2 * pi / k)) = sin (k * h)"
    by simp_all
qed

section \<open>Linearization and its inverse\<close>

lemma powr_5_12_less:
  fixes x q :: real
  assumes "0 < x" and "0 < q" and "x ^ 5 < q ^ 12"
  shows "x powr (5 / 12) < q"
proof -
  have "(x ^ 5) powr (1 / 12) < (q ^ 12) powr (1 / 12)"
    using assms by (intro powr_less_mono2) simp_all
  moreover have "(x ^ 5) powr (1 / 12) = x powr (5 / 12)"
    using assms(1) by (simp add: powr_powr flip: powr_numeral)
  moreover have "(q ^ 12) powr (1 / 12) = q"
    using assms(2) by (simp add: powr_powr flip: powr_numeral)
  ultimately show ?thesis by simp
qed

lemma powr_5_12_le:
  fixes x q :: real
  assumes "0 < x" and "0 < q" and "x ^ 5 \<le> q ^ 12"
  shows "x powr (5 / 12) \<le> q"
proof -
  have "(x ^ 5) powr (1 / 12) \<le> (q ^ 12) powr (1 / 12)"
    using assms by (intro powr_mono2) simp_all
  moreover have "(x ^ 5) powr (1 / 12) = x powr (5 / 12)"
    using assms(1) by (simp add: powr_powr flip: powr_numeral)
  moreover have "(q ^ 12) powr (1 / 12) = q"
    using assms(2) by (simp add: powr_powr flip: powr_numeral)
  ultimately show ?thesis by simp
qed

lemma powr_5_12_greater:
  fixes x q :: real
  assumes "0 < x" and "0 < q" and "q ^ 12 < x ^ 5"
  shows "q < x powr (5 / 12)"
proof -
  have "(q ^ 12) powr (1 / 12) < (x ^ 5) powr (1 / 12)"
    using assms by (intro powr_less_mono2) simp_all
  moreover have "(x ^ 5) powr (1 / 12) = x powr (5 / 12)"
    using assms(1) by (simp add: powr_powr flip: powr_numeral)
  moreover have "(q ^ 12) powr (1 / 12) = q"
    using assms(2) by (simp add: powr_powr flip: powr_numeral)
  ultimately show ?thesis by simp
qed

lemma powr_12_5_greater:
  fixes x q :: real
  assumes "0 < x" and "0 < q" and "q ^ 5 < x ^ 12"
  shows "q < x powr (12 / 5)"
proof -
  have "(q ^ 5) powr (1 / 5) < (x ^ 12) powr (1 / 5)"
    using assms by (intro powr_less_mono2) simp_all
  moreover have "(x ^ 12) powr (1 / 5) = x powr (12 / 5)"
    using assms(1) by (simp add: powr_powr flip: powr_numeral)
  moreover have "(q ^ 5) powr (1 / 5) = q"
    using assms(2) by (simp add: powr_powr flip: powr_numeral)
  ultimately show ?thesis by simp
qed

lemma powr_inverse_exponents:
  fixes x :: real
  assumes "0 < x"
  shows "(x powr (5 / 12)) powr (12 / 5) = x" and "(x powr (12 / 5)) powr (5 / 12) = x"
  using assms by (simp_all add: powr_powr)

lemma srgb_threshold_1: "(0.04045 / 12.92 :: real) ^ 5 < (0.09545 / 1.055) ^ 12" by (simp add: power_divide)
lemma srgb_threshold_2: "(0.0031308 :: real) ^ 5 < (0.09545 / 1.055) ^ 12" by (simp add: power_divide)
lemma srgb_threshold_3: "(0.09545 / 1.055 :: real) ^ 12 < 0.00313081 ^ 5" by (simp add: power_divide)
lemma srgb_threshold_4: "(0.0954499 / 1.055 :: real) ^ 12 < 0.0031308 ^ 5" by (simp add: power_divide)
lemma srgb_threshold_5: "(0.00313081 :: real) ^ 5 < (0.0954501 / 1.055) ^ 12" by (simp add: power_divide)


lemma linearize_low: "v \<le> 0.04045 \<Longrightarrow> linearize v = v / 12.92"
  by (simp add: linearize_def)

lemma linearize_high: "0.04045 < v \<Longrightarrow> linearize v = ((v + 0.055) / 1.055) powr (12 / 5)"
  by (simp add: linearize_def math_Pow_def)

lemma delinearize_low: "v \<le> 0.0031308 \<Longrightarrow> delinearize v = 12.92 * v"
  by (simp add: delinearize_def)

lemma delinearize_high: "0.0031308 < v \<Longrightarrow> delinearize v = 1.055 * v powr (5 / 12) - 0.055"
  by (simp add: delinearize_def math_Pow_def)

lemma linearize_high_gt:
  assumes "0.04045 < v"
  shows "0.0031308 < linearize v"
proof -
  let ?x = "(v + 0.055) / 1.055"
  have x: "0.09545 / 1.055 < ?x" using assms by simp
  then have x0: "0 < ?x" by simp
  have "(0.0031308 :: real) ^ 5 < (0.09545 / 1.055) ^ 12" by (rule srgb_threshold_2)
  also have "\<dots> < ?x ^ 12" using x by (intro power_strict_mono) simp_all
  finally have "0.0031308 < ?x powr (12 / 5)"
    using x0 by (intro powr_12_5_greater) simp_all
  then show ?thesis using assms by (simp only: linearize_high)
qed

lemma delinearize_linearize_exact:
  assumes "v \<le> 0.0031308 * 12.92 \<or> 0.04045 < v"
  shows "delinearize (linearize v) = v"
proof (cases "0.04045 < v")
  case True
  have x0: "0 < (v + 0.055) / 1.055" using True by simp
  have "delinearize (linearize v) = 1.055 * (linearize v) powr (5 / 12) - 0.055"
    using linearize_high_gt[OF True] by (rule delinearize_high)
  also have "\<dots> = 1.055 * ((v + 0.055) / 1.055) - 0.055"
    using powr_inverse_exponents(2)[OF x0] by (simp only: linearize_high[OF True])
  also have "\<dots> = v" by (simp add: field_simps)
  finally show ?thesis .
next
  case False
  then have v: "v \<le> 0.0031308 * 12.92" using assms by simp
  then have l: "linearize v = v / 12.92" by (intro linearize_low) simp
  have "v / 12.92 \<le> 0.0031308" using v by simp
  then show ?thesis unfolding l by (simp add: delinearize_low)
qed

lemma delinearize_high_gt:
  assumes "0.00313081 \<le> v"
  shows "0.04045 < delinearize v"
proof -
  have v0: "0 < v" using assms by simp
  have "(0.09545 / 1.055 :: real) ^ 12 < 0.00313081 ^ 5" by (rule srgb_threshold_3)
  also have "\<dots> \<le> v ^ 5" using assms by (intro power_mono) simp_all
  finally have "0.09545 / 1.055 < v powr (5 / 12)"
    using v0 by (intro powr_5_12_greater) simp_all
  then have "0.04045 < 1.055 * v powr (5 / 12) - 0.055" by simp
  moreover have "0.0031308 < v" using assms by simp
  ultimately show ?thesis by (simp only: delinearize_high)
qed

lemma linearize_delinearize_exact:
  assumes "v \<le> 0.0031308 \<or> 0.00313081 \<le> v"
  shows "linearize (delinearize v) = v"
proof (cases "v \<le> 0.0031308")
  case True
  then have d: "delinearize v = 12.92 * v" by (rule delinearize_low)
  have "12.92 * v \<le> 0.04045" using True by simp
  then show ?thesis unfolding d by (simp add: linearize_low)
next
  case False
  then have v: "0.00313081 \<le> v" using assms by simp
  then have v0: "0 < v" and v1: "0.0031308 < v" by simp_all
  have "linearize (delinearize v) = ((delinearize v + 0.055) / 1.055) powr (12 / 5)"
    using delinearize_high_gt[OF v] by (rule linearize_high)
  also have "\<dots> = (v powr (5 / 12)) powr (12 / 5)"
    by (simp add: delinearize_high[OF v1])
  also have "\<dots> = v" using v0 by (rule powr_inverse_exponents)
  finally show ?thesis .
qed

lemma delinearize_gap_bounds:
  assumes "0.0031308 < w" and "w \<le> 0.04045 / 12.92"
  shows "0.0404499 < delinearize w" and "delinearize w \<le> 0.04045"
proof -
  have w0: "0 < w" using assms by simp
  have "(0.0954499 / 1.055 :: real) ^ 12 < 0.0031308 ^ 5" by (rule srgb_threshold_4)
  also have "\<dots> \<le> w ^ 5" using assms by (intro power_mono) simp_all
  finally have "0.0954499 / 1.055 < w powr (5 / 12)"
    using w0 by (intro powr_5_12_greater) simp_all
  then have "0.0404499 < 1.055 * w powr (5 / 12) - 0.055" by simp
  then show "0.0404499 < delinearize w" using assms(1) by (simp only: delinearize_high)
  have "w ^ 5 \<le> (0.04045 / 12.92) ^ 5" using assms w0 by (intro power_mono) simp_all
  also have "\<dots> \<le> (0.09545 / 1.055) ^ 12" using srgb_threshold_1 by simp
  finally have "w powr (5 / 12) \<le> 0.09545 / 1.055"
    using w0 by (intro powr_5_12_le) simp_all
  then have "1.055 * w powr (5 / 12) - 0.055 \<le> 0.04045" by simp
  then show "delinearize w \<le> 0.04045" using assms(1) by (simp only: delinearize_high)
qed

lemma delinearize_linearize_close: "\<bar>delinearize (linearize v) - v\<bar> < 0.0000001"
proof (cases "v \<le> 0.0031308 * 12.92 \<or> 0.04045 < v")
  case True
  then show ?thesis by (simp only: delinearize_linearize_exact) simp
next
  case False
  then have v: "0.0031308 * 12.92 < v" "v \<le> 0.04045" by simp_all
  then have l: "linearize v = v / 12.92" by (intro linearize_low) simp
  have w: "0.0031308 < v / 12.92" "v / 12.92 \<le> 0.04045 / 12.92" using v by simp_all
  show ?thesis
    unfolding l abs_less_iff using delinearize_gap_bounds[OF w] v by simp
qed

lemma delinearize_below:
  assumes "0.0031308 < v" and "v < 0.00313081"
  shows "0.0404499 < delinearize v" and "delinearize v < 0.0404501"
proof -
  have v0: "0 < v" using assms by simp
  have "(0.0954499 / 1.055 :: real) ^ 12 < 0.0031308 ^ 5" by (rule srgb_threshold_4)
  also have "\<dots> \<le> v ^ 5" using assms by (intro power_mono) simp_all
  finally have "0.0954499 / 1.055 < v powr (5 / 12)"
    using v0 by (intro powr_5_12_greater) simp_all
  then have "0.0404499 < 1.055 * v powr (5 / 12) - 0.055" by simp
  then show "0.0404499 < delinearize v" using assms(1) by (simp only: delinearize_high)
  have "v ^ 5 \<le> 0.00313081 ^ 5" using assms v0 by (intro power_mono) simp_all
  also have "\<dots> < (0.0954501 / 1.055) ^ 12" by (rule srgb_threshold_5)
  finally have "v powr (5 / 12) < 0.0954501 / 1.055"
    using v0 by (intro powr_5_12_less) simp_all
  then have "1.055 * v powr (5 / 12) - 0.055 < 0.0404501" by simp
  then show "delinearize v < 0.0404501" using assms(1) by (simp only: delinearize_high)
qed

lemma linearize_delinearize_close: "\<bar>linearize (delinearize v) - v\<bar> < 0.0000001"
proof (cases "v \<le> 0.0031308 \<or> 0.00313081 \<le> v")
  case True
  then show ?thesis by (simp only: linearize_delinearize_exact) simp
next
  case False
  then have v: "0.0031308 < v" "v < 0.00313081" by simp_all
  note d = delinearize_below[OF v]
  have v0: "0 < v" using v by simp
  show ?thesis
  proof (cases "delinearize v \<le> 0.04045")
    case True
    then have "linearize (delinearize v) = delinearize v / 12.92" by (rule linearize_low)
    then show ?thesis unfolding abs_less_iff using d True v by simp
  next
    case False
    then have h: "0.04045 < delinearize v" by simp
    have "linearize (delinearize v) = ((delinearize v + 0.055) / 1.055) powr (12 / 5)"
      using h by (rule linearize_high)
    also have "\<dots> = (v powr (5 / 12)) powr (12 / 5)"
      by (simp add: delinearize_high[OF v(1)])
    also have "\<dots> = v" using v0 by (rule powr_inverse_exponents)
    finally show ?thesis by simp
  qed
qed

lemma delinearize_threshold_differs:
  "delinearize (linearize 0.04045) \<noteq> 0.04045"
proof
  assume a: "delinearize (linearize 0.04045) = 0.04045"
  have l: "linearize 0.04045 = 0.04045 / 12.92" by (rule linearize_low) simp
  have gt: "(0.0031308 :: real) < 0.04045 / 12.92" by simp
  have "(0.04045 / 12.92 :: real) powr (5 / 12) < 0.09545 / 1.055"
    using srgb_threshold_1 by (intro powr_5_12_less) simp_all
  then have "1.055 * (0.04045 / 12.92 :: real) powr (5 / 12) - 0.055 < 0.04045" by simp
  then have "delinearize (0.04045 / 12.92) < 0.04045" by (simp only: delinearize_high[OF gt])
  moreover have "delinearize (0.04045 / 12.92) = 0.04045" using a unfolding l .
  ultimately show False by simp
qed

text \<open>
  C8.  For black the sum \<open>X + Y + Z\<close> is zero, so \<^verbatim>\<open>Color{0,0,0}.Xyy()\<close> does not divide by
  it: \<open>x\<close> and \<open>y\<close> are the chromaticity of the D65 white, about 0.3127 and 0.3290, and
  \<open>Y\<close> is 0.  In general, whenever \<open>\<bar>X + Y + Z\<bar> < 1e-14\<close> the result is built from the
  reference white alone.
\<close>

theorem Xyy_black_uses_white:
  "Color_Xyy \<lparr>R = 0, G = 0, B = 0\<rparr>
     = (0.95047 / (0.95047 + 1 + 1.08883), 1 / (0.95047 + 1 + 1.08883), 0)
   \<and> (case Color_Xyy \<lparr>R = 0, G = 0, B = 0\<rparr> of (x, y, Y) \<Rightarrow>
         \<bar>x - 0.3127\<bar> < 0.0001 \<and> \<bar>y - 0.3290\<bar> < 0.0001 \<and> Y = 0)
   \<and> (\<bar>X + Y + Z\<bar> < 0.00000000000001 \<longrightarrow>
         XyzToXyyWhiteRef X Y Z (w0, w1, w2) = (w0 / (w0 + w1 + w2), w1 / (w0 + w1 + w2), Y))
   \<and> (\<bar>X + Y + Z\<bar> < 0.00000000000001 \<longrightarrow>
         XyzToXyy X Y Z = (0.95047 / (0.95047 + 1 + 1.08883), 1 / (0.95047 + 1 + 1.08883), Y))"
  by (simp add: Color_Xyy_def Color_Xyz_black XyzToXyy_def XyzToXyyWhiteRef_def D65_def Let_def)

theorem Xyy_black_uses_white_witness:
  "\<bar>0 + 0 + 0 :: real\<bar> < 0.00000000000001
   \<and> XyzToXyyWhiteRef 0 0 0 (0.96422, 1, 0.82521)
       = (0.96422 / (0.96422 + 1 + 0.82521), 1 / (0.96422 + 1 + 0.82521), 0)
   \<and> XyzToXyy 0 0 0 = (0.95047 / (0.95047 + 1 + 1.08883), 1 / (0.95047 + 1 + 1.08883), 0)"
  using Xyy_black_uses_white[of 0 0 0 "0.96422" 1 "0.82521"] by simp

text \<open>
  C2, as the claim states it, fails: \<^verbatim>\<open>Hsv\<close> and \<^verbatim>\<open>Hsl\<close> do not reduce the hue modulo 360.
  A hue of 420 degrees is not treated like 60 degrees by \<^verbatim>\<open>Hsv\<close>, and 660 degrees is not
  treated like 300 degrees by \<^verbatim>\<open>Hsl\<close>.
\<close>

theorem hue_not_wrapped_counterexample:
  "Hsv (60 + 360) 1 1 \<noteq> Hsv 60 1 1 \<and> Hsl (300 + 360) 1 (1 / 2) \<noteq> Hsl 300 1 (1 / 2)"
  by (simp add: Hsv_def Hsl_def Hsl_wrap_def Hsl_channel_def Let_def math_Mod_def trunc_def)

text \<open>
  C2, amended.  The inverse conversions are written for hues in \<open>[0, 360]\<close> and do not reduce
  other hues modulo 360.  For \<open>H < 0\<close> and for \<open>H > 360\<close>, \<^verbatim>\<open>Hsv\<close> returns the grey
  \<open>(V - V * S, V - V * S, V - V * S)\<close>.  \<open>Hsl (h + 360) s l = Hsl h s l\<close> holds for \<open>h\<close> in
  \<open>[-240, 240]\<close>, and with \<open>s = 0\<close> \<^verbatim>\<open>Hsl\<close> ignores the hue.  \<^verbatim>\<open>Hcl\<close> and \<^verbatim>\<open>LuvLCh\<close> are
  periodic in the hue with period \<open>2 * pi / 0.01745329251994329576\<close>.
\<close>

theorem hue_handling_of_inverses:
  "(H < 0 \<or> 360 < H \<longrightarrow> Hsv H S V = \<lparr>R = V - V * S, G = V - V * S, B = V - V * S\<rparr>)
   \<and> (- 240 \<le> h \<and> h \<le> 240 \<longrightarrow> Hsl (h + 360) s l = Hsl h s l)
   \<and> Hsl h 0 l = \<lparr>R = l, G = l, B = l\<rparr>
   \<and> Hcl (h + 2 * pi / 0.01745329251994329576) c l = Hcl h c l
   \<and> LuvLCh l c (h + 2 * pi / 0.01745329251994329576) = LuvLCh l c h"
proof -
  have k: "(0.01745329251994329576 :: real) \<noteq> 0" by simp
  have 1: "H < 0 \<or> 360 < H \<longrightarrow> Hsv H S V = \<lparr>R = V - V * S, G = V - V * S, B = V - V * S\<rparr>"
    using Hsv_out_of_range by blast
  have 2: "- 240 \<le> h \<and> h \<le> 240 \<longrightarrow> Hsl (h + 360) s l = Hsl h s l"
    using Hsl_one_turn by blast
  have 3: "Hsl h 0 l = \<lparr>R = l, G = l, B = l\<rparr>" by (simp add: Hsl_def)
  have 4: "Hcl (h + 2 * pi / 0.01745329251994329576) c l = Hcl h c l"
    unfolding Hcl_def HclWhiteRef_def HclToLab_def Let_def polar_period[OF k] ..
  have 5: "LuvLCh l c (h + 2 * pi / 0.01745329251994329576) = LuvLCh l c h"
    unfolding LuvLCh_def LuvLChWhiteRef_def LuvLChToLuv_def Let_def polar_period[OF k] ..
  show ?thesis using 1 2 3 4 5 by (intro conjI)
qed

theorem hue_handling_of_inverses_witness:
  "((420 :: real) < 0 \<or> (360 :: real) < 420) \<and> Hsv 420 1 1 = \<lparr>R = 0, G = 0, B = 0\<rparr>
   \<and> (- 240 :: real) \<le> 0 \<and> (0 :: real) \<le> 240
   \<and> Hsl (0 + 360) 1 (1 / 2) = Hsl 0 1 (1 / 2)
   \<and> Hsl 0 1 (1 / 2) = \<lparr>R = 1, G = 0, B = 0\<rparr>"
proof -
  have e: "Hsl 0 1 (1 / 2) = \<lparr>R = 1, G = 0, B = 0\<rparr>"
    by (simp add: Hsl_def Hsl_wrap_def Hsl_channel_def Let_def)
  show ?thesis
    using hue_handling_of_inverses[of 420 1 1 0 1 "1 / 2" 0] e by simp
qed

text \<open>
  C5, as the claim states it, fails: at the branch threshold 0.04045 the two functions
  are not exact inverses of each other.
\<close>

theorem delinearize_linearize_counterexample:
  "delinearize (linearize 0.04045) \<noteq> 0.04045"
  by (rule delinearize_threshold_differs)

text \<open>
  C5, amended.  \<^verbatim>\<open>linearize\<close> divides by 12.92 up to 0.04045 and applies
  \<open>((v + 0.055) / 1.055) ^ 2.4\<close> above; \<^verbatim>\<open>delinearize\<close> multiplies by 12.92 up to 0.0031308
  and applies \<open>1.055 * v ^ (1 / 2.4) - 0.055\<close> above.  On \<open>[0, 1]\<close> they are inverse to each
  other except between the branch thresholds: \<open>delinearize (linearize v) = v\<close> for
  \<open>v \<le> 12.92 * 0.0031308\<close> and for \<open>v > 0.04045\<close>, and \<open>linearize (delinearize v) = v\<close> for
  \<open>v \<le> 0.0031308\<close> and for \<open>v \<ge> 0.00313081\<close>.  For every \<open>v\<close> in \<open>[0, 1]\<close> both compositions
  differ from \<open>v\<close> by less than \<open>1e-7\<close>.
\<close>

theorem linearize_delinearize_inverse:
  "linearize v = (if v \<le> 0.04045 then v / 12.92 else ((v + 0.055) / 1.055) powr 2.4)
   \<and> delinearize v = (if v \<le> 0.0031308 then 12.92 * v else 1.055 * v powr (1 / 2.4) - 0.055)
   \<and> (0 \<le> v \<and> v \<le> 1 \<and> (v \<le> 12.92 * 0.0031308 \<or> 0.04045 < v)
        \<longrightarrow> delinearize (linearize v) = v)
   \<and> (0 \<le> v \<and> v \<le> 1 \<and> (v \<le> 0.0031308 \<or> 0.00313081 \<le> v)
        \<longrightarrow> linearize (delinearize v) = v)
   \<and> (0 \<le> v \<and> v \<le> 1
        \<longrightarrow> \<bar>delinearize (linearize v) - v\<bar> < 0.0000001
            \<and> \<bar>linearize (delinearize v) - v\<bar> < 0.0000001)"
proof -
  have 1: "linearize v = (if v \<le> 0.04045 then v / 12.92 else ((v + 0.055) / 1.055) powr 2.4)"
    by (simp add: linearize_def math_Pow_def)
  have 2: "delinearize v = (if v \<le> 0.0031308 then 12.92 * v else 1.055 * v powr (1 / 2.4) - 0.055)"
    by (simp add: delinearize_def math_Pow_def)
  have 3: "0 \<le> v \<and> v \<le> 1 \<and> (v \<le> 12.92 * 0.0031308 \<or> 0.04045 < v)
        \<longrightarrow> delinearize (linearize v) = v"
    using delinearize_linearize_exact[of v] by (simp add: mult.commute)
  have 4: "0 \<le> v \<and> v \<le> 1 \<and> (v \<le> 0.0031308 \<or> 0.00313081 \<le> v)
        \<longrightarrow> linearize (delinearize v) = v"
    using linearize_delinearize_exact[of v] by blast
  have 5: "0 \<le> v \<and> v \<le> 1
        \<longrightarrow> \<bar>delinearize (linearize v) - v\<bar> < 0.0000001
            \<and> \<bar>linearize (delinearize v) - v\<bar> < 0.0000001"
    using delinearize_linearize_close[of v] linearize_delinearize_close[of v] by blast
  show ?thesis using 1 2 3 4 5 by (intro conjI)
qed

theorem linearize_delinearize_inverse_witness:
  "(0 :: real) \<le> 1 / 2 \<and> (1 / 2 :: real) \<le> 1 \<and> (0.04045 :: real) < 1 / 2
   \<and> (0.00313081 :: real) \<le> 1 / 2
   \<and> delinearize (linearize (1 / 2)) = 1 / 2
   \<and> linearize (delinearize (1 / 2)) = 1 / 2
   \<and> \<bar>delinearize (linearize (1 / 2)) - 1 / 2\<bar> < 0.0000001"
proof -
  note t = linearize_delinearize_inverse[of "1 / 2", THEN conjunct2, THEN conjunct2]
  have a: "delinearize (linearize (1 / 2)) = 1 / 2"
    using t[THEN conjunct1] by simp
  have b: "linearize (delinearize (1 / 2)) = 1 / 2"
    using t[THEN conjunct2, THEN conjunct1] by simp
  have c: "\<bar>delinearize (linearize (1 / 2)) - 1 / 2\<bar> < 0.0000001"
    using t[THEN conjunct2, THEN conjunct2] by simp
  show ?thesis using a b c by simp
qed

section \<open>Distance metrics\<close>





lemma sq_zero: "sq 0 = 0"
  by (simp add: sq_def)

lemma sq_power2: "sq x = x\<^sup>2"
  by (simp add: sq_def power2_eq_square)























lemma linearize_one: "linearize 1 = 1"
  by (simp add: linearize_def math_Pow_def)

lemma Color_Xyz_red:
  "Color_Xyz \<lparr>R = 1, G = 0, B = 0\<rparr>
     = (0.41239079926595948, 0.21263900587151036, 0.019330818715591851)"
proof -
  have z: "linearize 0 = 0" by (simp add: linearize_def)
  show ?thesis
    by (simp add: Color_Xyz_def Color_LinearRgb_def LinearRgbToXyz_def linearize_one z)
qed









section \<open>Blending with a grey endpoint\<close>

lemma root3_half: "root 3 (1 / 8) = (1 / 2 :: real)"
  by (rule real_root_pos_unique) (simp_all add: power3_eq_cube)

lemma Color_Luv_black: "Color_Luv \<lparr>R = 0, G = 0, B = 0\<rparr> = (0, 0, 0)"
  by (simp add: Color_Luv_def Color_Xyz_black XyzToLuv_def XyzToLuvWhiteRef_def D65_def
      xyz_to_uv_def Let_def)

lemma Color_LuvLCh_black: "Color_LuvLCh \<lparr>R = 0, G = 0, B = 0\<rparr> = (0, 0, 0)"
  by (simp add: Color_LuvLCh_def Color_LuvLChWhiteRef_def Color_LuvWhiteRef_def Color_Xyz_black
      XyzToLuvWhiteRef_def D65_def xyz_to_uv_def LuvToLuvLCh_def Let_def sq_zero)

lemma XyzToLuvWhiteRef_bright:
  assumes "6 / 29 * 6 / 29 * 6 / 29 < y / w1"
    and "x + 15 * y + 3 * z \<noteq> 0" and "w0 + 15 * w1 + 3 * w2 \<noteq> 0"
  shows "XyzToLuvWhiteRef x y z (w0, w1, w2) =
     (1.16 * root 3 (y / w1) - 0.16,
      13 * (1.16 * root 3 (y / w1) - 0.16)
         * (4 * x / (x + 15 * y + 3 * z) - 4 * w0 / (w0 + 15 * w1 + 3 * w2)),
      13 * (1.16 * root 3 (y / w1) - 0.16)
         * (9 * y / (x + 15 * y + 3 * z) - 9 * w1 / (w0 + 15 * w1 + 3 * w2)))"
  using assms by (simp add: XyzToLuvWhiteRef_def xyz_to_uv_def Let_def)

lemma Color_Luv_red_bounds:
  "case Color_LuvWhiteRef \<lparr>R = 1, G = 0, B = 0\<rparr> D65 of (l, u, v) \<Rightarrow>
     0 < l \<and> 1 < u \<and> 0 < v \<and> 0.0001 < u - v"
proof -
  define X Y Z :: real where "X = 0.41239079926595948" and "Y = 0.21263900587151036"
    and "Z = 0.019330818715591851"
  define l where "l = 1.16 * root 3 (Y / 1.00000) - 0.16"
  define du where "du = 4 * X / (X + 15 * Y + 3 * Z) - 4 * 0.95047 / (0.95047 + 15 * 1.00000 + 3 * 1.08883)"
  define dv where "dv = 9 * Y / (X + 15 * Y + 3 * Z) - 9 * 1.00000 / (0.95047 + 15 * 1.00000 + 3 * 1.08883)"
  have "root 3 (1 / 8) < root 3 (Y / 1.00000)"
    by (simp only: real_root_less_iff) (simp add: Y_def)
  then have "1 / 2 < root 3 (Y / 1.00000)" by (simp only: root3_half)
  then have l: "0.42 < l" by (simp add: l_def)
  have du: "0.25 < du" and dv: "0.05 < dv" and dd: "0.19 < du - dv"
    by (simp_all add: du_def dv_def X_def Y_def Z_def)
  have e: "Color_LuvWhiteRef \<lparr>R = 1, G = 0, B = 0\<rparr> D65 = (l, 13 * l * du, 13 * l * dv)"
    unfolding Color_LuvWhiteRef_def Color_Xyz_red prod.case D65_def l_def du_def dv_def
      X_def Y_def Z_def
    by (rule XyzToLuvWhiteRef_bright) simp_all
  define pu pv where "pu = l * du" and "pv = l * dv"
  have u: "0.42 * 0.25 < pu" unfolding pu_def using l du by (intro mult_strict_mono) simp_all
  have v: "0.42 * 0.05 < pv" unfolding pv_def using l dv by (intro mult_strict_mono) simp_all
  have "0.42 * 0.19 < l * (du - dv)" using l dd by (intro mult_strict_mono) simp_all
  then have w: "0.42 * 0.19 < pu - pv" by (simp add: pu_def pv_def algebra_simps)
  have e': "Color_LuvWhiteRef \<lparr>R = 1, G = 0, B = 0\<rparr> D65 = (l, 13 * pu, 13 * pv)"
    unfolding e pu_def pv_def by (simp only: mult.assoc)
  show ?thesis
    unfolding e' prod.case using l u v w by simp
qed

lemma polar_hue_first_quadrant:
  fixes u v :: real
  assumes "0 < u" and "0 < v"
  defines "h \<equiv> math_Mod (57.29577951308232087721 * math_Atan2 v u + 360) 360"
  shows "0 < h" and "h < 180"
proof -
  have a: "math_Atan2 v u = arctan (v / u)" using assms(1) by (simp add: math_Atan2_def)
  have "0 < v / u" using assms by simp
  then have p: "0 < arctan (v / u)" by (simp add: zero_less_arctan_iff)
  have "arctan (v / u) < pi / 2" by (rule arctan_ubound)
  then have q: "arctan (v / u) < 2" using pi_less_4 by linarith
  define x where "x = 57.29577951308232087721 * arctan (v / u)"
  have x: "0 < x" "x < 180" using p q by (simp_all add: x_def)
  have "h = math_Mod (x + 360) 360" by (simp add: h_def a x_def)
  also have "\<dots> = x" using x by (intro math_Mod_shift) simp_all
  finally show "0 < h" "h < 180" using x by simp_all
qed

lemma interp_angle_from_zero:
  assumes "0 \<le> h" and "h < 180" and "0 \<le> t" and "t \<le> 1"
  shows "interp_angle 0 h t = t * h"
proof -
  have 1: "math_Mod (h - 0) 360 = h" using assms by (simp add: math_Mod_small)
  have "math_Mod (h + 540) 360 = math_Mod ((h + 180) + 360) 360" by (simp add: add.assoc)
  also have "\<dots> = h + 180" using assms by (intro math_Mod_shift) simp_all
  finally have 2: "math_Mod (h + 540) 360 = h + 180" .
  have th: "0 \<le> t * h" using assms by simp
  have "t * h \<le> 1 * h" using assms by (intro mult_right_mono) simp_all
  then have th2: "t * h < 360" using assms by simp
  have 3: "math_Mod (t * h + 360) 360 = t * h" using th th2 by (rule math_Mod_shift)
  show ?thesis
    unfolding interp_angle_def Let_def 1 2 using 3 by simp
qed

lemma interp_angle_same:
  assumes "0 \<le> h" and "h < 360"
  shows "interp_angle h h t = h"
proof -
  have 1: "math_Mod (h - h) 360 = 0" by (simp add: math_Mod_def trunc_def)
  have 2: "math_Mod (0 + 540) 360 = 180" by (simp add: math_Mod_def trunc_def)
  have 3: "math_Mod (h + 360) 360 = h" using assms by (rule math_Mod_shift)
  show ?thesis
    unfolding interp_angle_def Let_def 1 2 using 3 by simp
qed

lemma Color_LuvLCh_red:
  "case Color_LuvLCh \<lparr>R = 1, G = 0, B = 0\<rparr> of (l, c, h) \<Rightarrow> 0 < l \<and> 1 < c \<and> 0 < h \<and> h < 180"
proof -
  obtain l u v where e: "Color_LuvWhiteRef \<lparr>R = 1, G = 0, B = 0\<rparr> D65 = (l, u, v)"
    by (cases "Color_LuvWhiteRef \<lparr>R = 1, G = 0, B = 0\<rparr> D65") auto
  have b: "0 < l" "1 < u" "0 < v" "0.0001 < u - v"
    using Color_Luv_red_bounds e by simp_all
  have c: "1 < sqrt (sq u + sq v)"
  proof -
    have "u \<le> sqrt (u\<^sup>2 + v\<^sup>2)" by (rule real_sqrt_sum_squares_ge1)
    then have "u \<le> sqrt (sq u + sq v)" by (simp only: sq_power2)
    then show ?thesis using b(2) by linarith
  qed
  have g: "\<bar>v - u\<bar> > 0.0001 \<and> \<bar>u\<bar> > 0.0001" using b by simp
  have "Color_LuvLCh \<lparr>R = 1, G = 0, B = 0\<rparr>
      = (l, sqrt (sq u + sq v), math_Mod (57.29577951308232087721 * math_Atan2 v u + 360) 360)"
    using g by (simp add: Color_LuvLCh_def Color_LuvLChWhiteRef_def e LuvToLuvLCh_def Let_def)
  then show ?thesis
    using b c polar_hue_first_quadrant[of u v] by simp
qed

lemma BlendHsv_coords_grey:
  assumes "Color_Hsv c1 = (h1, s1, v1)" and "Color_Hsv c2 = (h2, s2, v2)"
  shows "s1 = 0 \<and> s2 \<noteq> 0 \<longrightarrow> fst (BlendHsv_coords c1 c2 t) = h2"
    and "s2 = 0 \<and> s1 \<noteq> 0 \<longrightarrow> fst (BlendHsv_coords c1 c2 t) = h1"
proof -
  have r1: "0 \<le> h1" "h1 < 360" using Color_Hsv_hue_range[of c1] assms(1) by simp_all
  have r2: "0 \<le> h2" "h2 < 360" using Color_Hsv_hue_range[of c2] assms(2) by simp_all
  show "s1 = 0 \<and> s2 \<noteq> 0 \<longrightarrow> fst (BlendHsv_coords c1 c2 t) = h2"
    by (simp add: BlendHsv_coords_def assms interp_angle_same[OF r2])
  show "s2 = 0 \<and> s1 \<noteq> 0 \<longrightarrow> fst (BlendHsv_coords c1 c2 t) = h1"
    by (auto simp: BlendHsv_coords_def assms interp_angle_same[OF r1])
qed

lemma BlendHcl_coords_grey:
  assumes "Color_Hcl c1 = (h1, k1, l1)" and "Color_Hcl c2 = (h2, k2, l2)"
  shows "k1 \<le> 0.00015 \<and> 0.00015 \<le> k2 \<longrightarrow> fst (BlendHcl_coords c1 c2 t) = h2"
    and "k2 \<le> 0.00015 \<and> 0.00015 < k1 \<longrightarrow> fst (BlendHcl_coords c1 c2 t) = h1"
proof -
  have r1: "0 \<le> h1" "h1 < 360" using Color_Hcl_hue_range[of c1] assms(1) by simp_all
  have r2: "0 \<le> h2" "h2 < 360" using Color_Hcl_hue_range[of c2] assms(2) by simp_all
  show "k1 \<le> 0.00015 \<and> 0.00015 \<le> k2 \<longrightarrow> fst (BlendHcl_coords c1 c2 t) = h2"
    by (simp add: BlendHcl_coords_def assms interp_angle_same[OF r2])
  show "k2 \<le> 0.00015 \<and> 0.00015 < k1 \<longrightarrow> fst (BlendHcl_coords c1 c2 t) = h1"
    by (auto simp: BlendHcl_coords_def assms interp_angle_same[OF r1])
qed

text \<open>
  C3 holds of \<^verbatim>\<open>BlendHsv\<close> and \<^verbatim>\<open>BlendHcl\<close>, the code of \<^verbatim>\<open>BlendLuvLCh\<close> does not do it.
  \<^verbatim>\<open>BlendHsv\<close> (test \<open>s = 0\<close>) and \<^verbatim>\<open>BlendHcl\<close> (threshold 0.00015) give the grey endpoint
  the hue of the other endpoint, and the hue they pass on is then that hue for every \<open>t\<close>.
  \<^verbatim>\<open>BlendLuvLCh\<close> has no such step: blending black, of chroma 0 and hue 0, with red, of
  chroma above 1 and hue \<open>h2\<close> strictly between 0 and 180, at \<open>t = 1/2\<close> passes the hue
  \<open>h2 / 2\<close> and not \<open>h2\<close>.
\<close>

theorem BlendLuvLCh_grey_endpoint_hue:
  "(case (Color_LuvLCh \<lparr>R = 0, G = 0, B = 0\<rparr>, Color_LuvLCh \<lparr>R = 1, G = 0, B = 0\<rparr>) of
      ((l1, c1, h1), (l2, c2, h2)) \<Rightarrow>
        c1 = 0 \<and> h1 = 0 \<and> 1 < c2 \<and> 0 < h2 \<and> h2 < 180
        \<and> BlendLuvLCh_coords \<lparr>R = 0, G = 0, B = 0\<rparr> \<lparr>R = 1, G = 0, B = 0\<rparr> (1 / 2)
            = (l2 / 2, c2 / 2, h2 / 2)
        \<and> h2 / 2 \<noteq> h2)
   \<and> (case (Color_Hsv c1, Color_Hsv c2) of ((h1, s1, v1), (h2, s2, v2)) \<Rightarrow>
        (s1 = 0 \<and> s2 \<noteq> 0 \<longrightarrow> fst (BlendHsv_coords c1 c2 t) = h2)
        \<and> (s2 = 0 \<and> s1 \<noteq> 0 \<longrightarrow> fst (BlendHsv_coords c1 c2 t) = h1))
   \<and> (case (Color_Hcl c1, Color_Hcl c2) of ((h1, k1, l1), (h2, k2, l2)) \<Rightarrow>
        (k1 \<le> 0.00015 \<and> 0.00015 \<le> k2 \<longrightarrow> fst (BlendHcl_coords c1 c2 t) = h2)
        \<and> (k2 \<le> 0.00015 \<and> 0.00015 < k1 \<longrightarrow> fst (BlendHcl_coords c1 c2 t) = h1))"
proof -
  obtain l2 k2 h2 where e: "Color_LuvLCh \<lparr>R = 1, G = 0, B = 0\<rparr> = (l2, k2, h2)"
    by (cases "Color_LuvLCh \<lparr>R = 1, G = 0, B = 0\<rparr>") auto
  have b: "0 < l2" "1 < k2" "0 < h2" "h2 < 180" using Color_LuvLCh_red e by simp_all
  have i: "interp_angle 0 h2 (1 / 2) = 1 / 2 * h2"
    using b by (intro interp_angle_from_zero) simp_all
  have 1: "case (Color_LuvLCh \<lparr>R = 0, G = 0, B = 0\<rparr>, Color_LuvLCh \<lparr>R = 1, G = 0, B = 0\<rparr>) of
      ((l1, c1, h1), (l2, c2, h2)) \<Rightarrow>
        c1 = 0 \<and> h1 = 0 \<and> 1 < c2 \<and> 0 < h2 \<and> h2 < 180
        \<and> BlendLuvLCh_coords \<lparr>R = 0, G = 0, B = 0\<rparr> \<lparr>R = 1, G = 0, B = 0\<rparr> (1 / 2)
            = (l2 / 2, c2 / 2, h2 / 2)
        \<and> h2 / 2 \<noteq> h2"
    using b i by (simp add: Color_LuvLCh_black e BlendLuvLCh_coords_def)
  obtain h1 s1 v1 where a1: "Color_Hsv c1 = (h1, s1, v1)" by (cases "Color_Hsv c1") auto
  obtain h2' s2 v2 where a2: "Color_Hsv c2 = (h2', s2, v2)" by (cases "Color_Hsv c2") auto
  have 2: "case (Color_Hsv c1, Color_Hsv c2) of ((h1, s1, v1), (h2, s2, v2)) \<Rightarrow>
        (s1 = 0 \<and> s2 \<noteq> 0 \<longrightarrow> fst (BlendHsv_coords c1 c2 t) = h2)
        \<and> (s2 = 0 \<and> s1 \<noteq> 0 \<longrightarrow> fst (BlendHsv_coords c1 c2 t) = h1)"
    unfolding a1 a2 prod.case using BlendHsv_coords_grey[OF a1 a2] by (rule conjI)
  obtain g1 k1 m1 where d1: "Color_Hcl c1 = (g1, k1, m1)" by (cases "Color_Hcl c1") auto
  obtain g2 k2' m2 where d2: "Color_Hcl c2 = (g2, k2', m2)" by (cases "Color_Hcl c2") auto
  have 3: "case (Color_Hcl c1, Color_Hcl c2) of ((h1, k1, l1), (h2, k2, l2)) \<Rightarrow>
        (k1 \<le> 0.00015 \<and> 0.00015 \<le> k2 \<longrightarrow> fst (BlendHcl_coords c1 c2 t) = h2)
        \<and> (k2 \<le> 0.00015 \<and> 0.00015 < k1 \<longrightarrow> fst (BlendHcl_coords c1 c2 t) = h1)"
    unfolding d1 d2 prod.case using BlendHcl_coords_grey[OF d1 d2] by (rule conjI)
  show ?thesis using 1 2 3 by (intro conjI)
qed

theorem BlendLuvLCh_grey_endpoint_hue_witness:
  "Color_Hsv \<lparr>R = 0, G = 0, B = 0\<rparr> = (0, 0, 0) \<and> Color_Hsv \<lparr>R = 0, G = 0, B = 1\<rparr> = (240, 1, 1)
   \<and> (0 :: real) = 0 \<and> (1 :: real) \<noteq> 0
   \<and> fst (BlendHsv_coords \<lparr>R = 0, G = 0, B = 0\<rparr> \<lparr>R = 0, G = 0, B = 1\<rparr> (1 / 2)) = 240
   \<and> fst (BlendHsv_coords \<lparr>R = 0, G = 0, B = 1\<rparr> \<lparr>R = 0, G = 0, B = 0\<rparr> (1 / 2)) = 240"
proof -
  have k: "Color_Hsv \<lparr>R = 0, G = 0, B = 0\<rparr> = (0, 0, 0)"
    by (simp add: Color_Hsv_def Let_def)
  have b: "Color_Hsv \<lparr>R = 0, G = 0, B = 1\<rparr> = (240, 1, 1)"
    by (simp add: Color_Hsv_def Let_def)
  show ?thesis
    using BlendLuvLCh_grey_endpoint_hue[of "\<lparr>R = 0, G = 0, B = 0\<rparr>" "\<lparr>R = 0, G = 0, B = 1\<rparr>" "1 / 2"]
      BlendLuvLCh_grey_endpoint_hue[of "\<lparr>R = 0, G = 0, B = 1\<rparr>" "\<lparr>R = 0, G = 0, B = 0\<rparr>" "1 / 2"]
    by (simp add: k b)
qed

section \<open>The round trip through HCL\<close>

lemma lab_finv_low: "t \<le> 6 / 29 \<Longrightarrow> lab_finv t = 3 * 6 / 29 * 6 / 29 * (t - 4 / 29)"
  by (simp add: lab_finv_def)

lemma dark_orange_Lab:
  "case Color_LabWhiteRef \<lparr>R = 23 / 1024, G = 15 / 1024, B = 0\<rparr> D65 of (L, a, b) \<Rightarrow>
     \<bar>a\<bar> \<le> 0.0001 \<and> 0.0159 < b \<and> b < 0.016
     \<and> 0.1471 < (L + 0.16) / 1.16 \<and> (L + 0.16) / 1.16 < 0.1472"
  by (simp add: Color_LabWhiteRef_def Color_Xyz_def Color_LinearRgb_def linearize_def
      LinearRgbToXyz_def XyzToLabWhiteRef_def D65_def lab_f_def Let_def)


lemma Hcl_at_hue_zero_blue:
  assumes f: "0.1471 < (L + 0.16) / 1.16" "(L + 0.16) / 1.16 < 0.1472"
    and c: "0.0159 \<le> c" "c \<le> 0.0161"
  shows "0.014 < B (HclWhiteRef 0 c L D65) \<and> B (HclWhiteRef 0 c L D65) < 0.017"
proof -
  define f where "f = (L + 0.16) / 1.16"
  have fb: "0.1471 < f" "f < 0.1472" using f by (simp_all add: f_def)
  have i1: "lab_finv (f + c / 5) = 3 * 6 / 29 * 6 / 29 * (f + c / 5 - 4 / 29)"
    using fb c by (intro lab_finv_low) simp
  have i2: "lab_finv f = 3 * 6 / 29 * 6 / 29 * (f - 4 / 29)"
    using fb by (intro lab_finv_low) simp
  define bl where "bl = 0.055630079696993609 * (0.95047 * (3 * 6 / 29 * 6 / 29 * (f + c / 5 - 4 / 29)))
      - 0.20397695888897657 * (1.00000 * (3 * 6 / 29 * 6 / 29 * (f - 4 / 29)))
      + 1.0569715142428786 * (1.08883 * (3 * 6 / 29 * 6 / 29 * (f - 4 / 29)))"
  have e: "B (HclWhiteRef 0 c L D65) = delinearize bl"
    unfolding HclWhiteRef_def HclToLab_def LabWhiteRef_def LabToXyzWhiteRef_def D65_def Let_def
      prod.case Xyz_def XyzToLinearRgb_def LinearRgb_def f_def[symmetric]
    by (simp add: i1 i2 bl_def)
  have b1: "0.0011 < bl"
    unfolding bl_def using fb c by simp argo
  have b2: "bl < 0.0013"
    unfolding bl_def using fb c by simp argo
  note b = b1 b2
  then have "delinearize bl = 12.92 * bl" by (intro delinearize_low) simp
  then show ?thesis unfolding e using b by simp
qed

lemma dark_orange_Hcl:
  "case Color_HclWhiteRef \<lparr>R = 23 / 1024, G = 15 / 1024, B = 0\<rparr> D65 of (h, c, l) \<Rightarrow>
     h = 0 \<and> 0.0159 \<le> c \<and> c \<le> 0.0161
     \<and> 0.014 < B (HclWhiteRef h c l D65) \<and> B (HclWhiteRef h c l D65) < 0.017"
proof -
  obtain L a b where e: "Color_LabWhiteRef \<lparr>R = 23 / 1024, G = 15 / 1024, B = 0\<rparr> D65 = (L, a, b)"
    by (cases "Color_LabWhiteRef \<lparr>R = 23 / 1024, G = 15 / 1024, B = 0\<rparr> D65") auto
  have p: "\<bar>a\<bar> \<le> 0.0001" "0.0159 < b" "b < 0.016"
    "0.1471 < (L + 0.16) / 1.16" "(L + 0.16) / 1.16 < 0.1472"
    using dark_orange_Lab e by simp_all
  define c where "c = sqrt (sq a + sq b)"
  have cc: "c = sqrt (a\<^sup>2 + b\<^sup>2)" by (simp add: c_def sq_power2)
  have "b \<le> c" unfolding cc by (rule real_sqrt_sum_squares_ge2)
  then have lo: "0.0159 \<le> c" using p(2) by simp
  have "c \<le> \<bar>a\<bar> + \<bar>b\<bar>" unfolding cc by (rule sqrt_sum_squares_le_sum_abs)
  then have hi: "c \<le> 0.0161" using p(1,2,3) by simp
  have h: "Color_HclWhiteRef \<lparr>R = 23 / 1024, G = 15 / 1024, B = 0\<rparr> D65 = (0, c, L)"
    using p(1) by (simp add: Color_HclWhiteRef_def e LabToHcl_def Let_def c_def)
  show ?thesis
    unfolding h prod.case using lo hi Hcl_at_hue_zero_blue[OF p(4,5) lo hi] by simp
qed

lemma interp_angle_at_zero: "interp_angle 0 a1 0 = 0"
  by (simp add: interp_angle_def Let_def math_Mod_def trunc_def)

lemma clamp01_inside: "0 \<le> v \<Longrightarrow> v \<le> 1 \<Longrightarrow> clamp01 v = v"
  by (simp add: clamp01_def)

text \<open>
  C1 fails on the code for HCL.  \<^verbatim>\<open>LabToHcl\<close> sets the hue to 0 whenever \<open>\<bar>a\<bar> \<le> 1e-4\<close> or
  \<open>\<bar>b - a\<bar> \<le> 1e-4\<close>, also when the color is far from grey.  The valid color
  \<open>(23/1024, 15/1024, 0)\<close> has \<open>\<bar>a\<bar> \<le> 1e-4\<close> and \<open>b > 0.0159\<close> under D65: its hue is
  forced to 0 although its chroma is above 0.0159, and converting back gives a blue
  component above 0.014 where the color has 0, far more than \<open>1e-4\<close>.
\<close>

theorem Hcl_round_trip_forced_hue:
  "IsValid \<lparr>R = 23 / 1024, G = 15 / 1024, B = 0\<rparr>
   \<and> (case Color_LabWhiteRef \<lparr>R = 23 / 1024, G = 15 / 1024, B = 0\<rparr> D65 of (L, a, b) \<Rightarrow>
         \<bar>a\<bar> \<le> 0.0001 \<and> 0.0159 < b)
   \<and> (case Color_HclWhiteRef \<lparr>R = 23 / 1024, G = 15 / 1024, B = 0\<rparr> D65 of (h, c, l) \<Rightarrow>
         h = 0 \<and> 0.0159 \<le> c
         \<and> 0.014 < \<bar>B (HclWhiteRef h c l D65) - B \<lparr>R = 23 / 1024, G = 15 / 1024, B = 0\<rparr>\<bar>)
   \<and> (case Color_Hcl \<lparr>R = 23 / 1024, G = 15 / 1024, B = 0\<rparr> of (h, c, l) \<Rightarrow>
         0.014 < \<bar>B (Hcl h c l) - B \<lparr>R = 23 / 1024, G = 15 / 1024, B = 0\<rparr>\<bar>)"
proof -
  obtain h c l where e: "Color_HclWhiteRef \<lparr>R = 23 / 1024, G = 15 / 1024, B = 0\<rparr> D65 = (h, c, l)"
    by (cases "Color_HclWhiteRef \<lparr>R = 23 / 1024, G = 15 / 1024, B = 0\<rparr> D65") auto
  have p: "h = 0" "0.0159 \<le> c" "0.014 < B (HclWhiteRef h c l D65)"
    using dark_orange_Hcl[unfolded e prod.case] by blast+
  have v: "IsValid \<lparr>R = 23 / 1024, G = 15 / 1024, B = 0\<rparr>" by (simp add: IsValid_def)
  have lab: "case Color_LabWhiteRef \<lparr>R = 23 / 1024, G = 15 / 1024, B = 0\<rparr> D65 of (L, a, b) \<Rightarrow>
         \<bar>a\<bar> \<le> 0.0001 \<and> 0.0159 < b"
    using dark_orange_Lab by (auto split: prod.splits)
  show ?thesis
    using v lab p by (simp add: e Color_Hcl_def Hcl_def)
qed

text \<open>
  C4 fails on the code for \<^verbatim>\<open>BlendHcl\<close>, through the same forced hue.  With the valid color
  \<open>(23/1024, 15/1024, 0)\<close> as first endpoint and any second endpoint, the blend at \<open>t = 0\<close>
  has a blue component above 0.014 where the first endpoint has 0.
\<close>

theorem BlendHcl_start_not_recovered:
  "0.014 < \<bar>B (BlendHcl \<lparr>R = 23 / 1024, G = 15 / 1024, B = 0\<rparr> col2 0)
           - B \<lparr>R = 23 / 1024, G = 15 / 1024, B = 0\<rparr>\<bar>"
proof -
  obtain h c l where e: "Color_Hcl \<lparr>R = 23 / 1024, G = 15 / 1024, B = 0\<rparr> = (h, c, l)"
    by (cases "Color_Hcl \<lparr>R = 23 / 1024, G = 15 / 1024, B = 0\<rparr>") auto
  have p: "h = 0" "0.0159 \<le> c" "0.014 < B (Hcl h c l)" "B (Hcl h c l) < 0.017"
    using dark_orange_Hcl[unfolded e[unfolded Color_Hcl_def] prod.case]
    unfolding Hcl_def by blast+
  obtain h2 c2 l2 where e2: "Color_Hcl col2 = (h2, c2, l2)" by (cases "Color_Hcl col2") auto
  have nc: "\<not> c \<le> 0.00015" using p(2) by simp
  have co: "BlendHcl_coords \<lparr>R = 23 / 1024, G = 15 / 1024, B = 0\<rparr> col2 0 = (h, c, l)"
    using nc by (simp add: BlendHcl_coords_def e e2 p(1) interp_angle_at_zero)
  have "B (BlendHcl \<lparr>R = 23 / 1024, G = 15 / 1024, B = 0\<rparr> col2 0) = clamp01 (B (Hcl h c l))"
    by (simp add: BlendHcl_def co Clamped_def)
  also have "\<dots> = B (Hcl h c l)" using p(3,4) by (intro clamp01_inside) simp_all
  finally show ?thesis using p(3) by simp
qed

end
